theory Spec2Isabelle
  imports Main "HOL-Library.Word"
begin

section \<open>The JavaScript values the edge functions compute with\<close>

text \<open>
  The edge functions of this repository (\<^verbatim>\<open>archive.js\<close>, \<^verbatim>\<open>archive-wacz.js\<close>,
  \<^verbatim>\<open>archive-warc-gz.js\<close> and the embed templating function) are written in JavaScript.
  Their byte-range arithmetic goes through the language's loose conversions
  (\<^verbatim>\<open>parseInt\<close>, \<^verbatim>\<open>isNaN\<close>, \<^verbatim>\<open>-\<close>, \<^verbatim>\<open>>=\<close>, template literals), so these are
  embedded first.

  Numbers are the integer fragment of the JavaScript Number type together with \<^verbatim>\<open>NaN\<close>:
  \<open>Num i\<close> is the Number of value \<open>i\<close>. The program's Numbers are doubles, and the
  embedding agrees with them for integers of magnitude at most \<open>2^53\<close>: up to there every
  integer is a double, \<^verbatim>\<open>parseInt\<close>, \<^verbatim>\<open>ToNumber\<close>, \<^verbatim>\<open>+ 1\<close> and \<^verbatim>\<open>- 1\<close> are exact
  and a Number prints as its decimal digits. Above \<open>2^53\<close> the program rounds to the
  nearest double (\<^verbatim>\<open>parseInt("9007199254740993")\<close> is 9007199254740992) and prints the
  shortest digits that identify it, in exponent form from \<open>10^21\<close> on; the embedding
  keeps the exact integer there, so it is not the program's value. Every property below
  that states a parsed or printed number therefore bounds it by \<open>2^53\<close>, or by the
  length of a buffer. Strings are lists of 8-bit characters, which is what a header value
  (a ByteString) is.
\<close>

datatype jsnum = NaN | Num int

datatype jsval = Undefined | Null | Str string | Number jsnum

type_synonym byte = "8 word"

subsection \<open>Decimal digits and Number-to-String\<close>

definition digit_char :: "nat \<Rightarrow> char" where
  "digit_char d = char_of (48 + d)"

fun dec :: "nat \<Rightarrow> string" where
  "dec n = (if n < 10 then [digit_char n] else dec (n div 10) @ [digit_char (n mod 10)])"

declare dec.simps [simp del]

text \<open>
  \<^verbatim>\<open>Number::toString\<close> on the integer fragment: the decimal digits, which is what the
  program prints for an integer of magnitude at most \<open>2^53\<close>.
\<close>

definition number_to_string :: "jsnum \<Rightarrow> string" where
  "number_to_string x =
     (case x of NaN \<Rightarrow> ''NaN''
      | Num i \<Rightarrow> (if i < 0 then CHR ''-'' # dec (nat (- i)) else dec (nat i)))"

text \<open>\<^verbatim>\<open>ToString\<close>, as a template literal \<^verbatim>\<open>`${v}`\<close> and \<^verbatim>\<open>parseInt(v)\<close> apply it.\<close>

definition to_string :: "jsval \<Rightarrow> string" where
  "to_string v =
     (case v of Undefined \<Rightarrow> ''undefined'' | Null \<Rightarrow> ''null'' | Str s \<Rightarrow> s
      | Number x \<Rightarrow> number_to_string x)"

subsection \<open>parseInt\<close>

text \<open>
  White space and line terminators of the language that fit in one 8-bit character:
  TAB, LF, VT, FF, CR, SP and NBSP.
\<close>

definition is_js_whitespace :: "char \<Rightarrow> bool" where
  "is_js_whitespace c =
     (c = CHR 0x09 \<or> c = CHR 0x0A \<or> c = CHR 0x0B \<or> c = CHR 0x0C \<or> c = CHR 0x0D
      \<or> c = CHR 0x20 \<or> c = CHR 0xA0)"

text \<open>The value of a character as a digit (decimal digits, then letters a-f in either case).\<close>

definition digit_val :: "char \<Rightarrow> nat option" where
  "digit_val c =
     (let k = (of_char c :: nat) in
      if 48 \<le> k \<and> k \<le> 57 then Some (k - 48)
      else if 97 \<le> k \<and> k \<le> 102 then Some (k - 87)
      else if 65 \<le> k \<and> k \<le> 70 then Some (k - 55)
      else None)"

definition is_radix_digit :: "nat \<Rightarrow> char \<Rightarrow> bool" where
  "is_radix_digit radix c = (case digit_val c of None \<Rightarrow> False | Some d \<Rightarrow> d < radix)"

definition digits_value :: "nat \<Rightarrow> string \<Rightarrow> nat" where
  "digits_value radix z =
     foldl (\<lambda>acc c. acc * radix + (case digit_val c of None \<Rightarrow> 0 | Some d \<Rightarrow> d)) 0 z"

text \<open>
  \<^verbatim>\<open>parseInt(string)\<close> with no radix argument: skip leading white space, read an optional
  sign, switch to radix 16 after a \<^verbatim>\<open>0x\<close>/\<^verbatim>\<open>0X\<close> prefix, read the longest run of digits
  and ignore whatever follows; no digit at all gives \<^verbatim>\<open>NaN\<close>. The result is the exact
  value of the digits, which is the program's result when it is at most \<open>2^53\<close>.
\<close>

definition parseInt_string :: "string \<Rightarrow> jsnum" where
  "parseInt_string input =
     (let s = dropWhile is_js_whitespace input;
          negative = (take 1 s = ''-'');
          s1 = (if take 1 s = ''+'' \<or> take 1 s = ''-'' then drop 1 s else s);
          hex = (take 2 s1 = ''0x'' \<or> take 2 s1 = ''0X'');
          s2 = (if hex then drop 2 s1 else s1);
          radix = (if hex then 16 else 10);
          z = takeWhile (is_radix_digit radix) s2
      in if z = [] then NaN
         else Num ((if negative then - 1 else 1) * int (digits_value radix z)))"

definition parseInt :: "jsval \<Rightarrow> jsnum" where
  "parseInt v = parseInt_string (to_string v)"

subsection \<open>ToNumber, arithmetic and comparison\<close>

text \<open>
  \<^verbatim>\<open>ToNumber\<close> on a string, for the decimal integer literals: surrounding white space
  is trimmed, the empty string is 0, an optionally signed run of decimal digits is its value
  (the program's value when at most \<open>2^53\<close>). Every other string is mapped to
  \<^verbatim>\<open>NaN\<close>. This is the program's result for a string that is no numeric literal, and
  not for the literals with a fraction, an exponent, a radix prefix or \<^verbatim>\<open>Infinity\<close>
  (\<^verbatim>\<open>"1e3"\<close> is 1000 in the program): these are outside the fragment, they are not the
  syntax of a \<^verbatim>\<open>Content-Length\<close> (one or more decimal digits), and every property below
  that converts a length takes it as a Number or as decimal digits.
\<close>

definition string_to_number :: "string \<Rightarrow> jsnum" where
  "string_to_number input =
     (let s = rev (dropWhile is_js_whitespace (rev (dropWhile is_js_whitespace input)));
          negative = (take 1 s = ''-'');
          s1 = (if take 1 s = ''+'' \<or> take 1 s = ''-'' then drop 1 s else s)
      in if s = [] then Num 0
         else if s1 \<noteq> [] \<and> list_all (is_radix_digit 10) s1
         then Num ((if negative then - 1 else 1) * int (digits_value 10 s1))
         else NaN)"

definition to_number :: "jsval \<Rightarrow> jsnum" where
  "to_number v =
     (case v of Undefined \<Rightarrow> NaN | Null \<Rightarrow> Num 0 | Str s \<Rightarrow> string_to_number s
      | Number x \<Rightarrow> x)"

definition isNaN :: "jsval \<Rightarrow> bool" where
  "isNaN v = (to_number v = NaN)"

text \<open>\<^verbatim>\<open>a - 1\<close> and \<^verbatim>\<open>a + 1\<close> on Numbers.\<close>

definition num_add :: "jsnum \<Rightarrow> int \<Rightarrow> jsnum" where
  "num_add x k = (case x of NaN \<Rightarrow> NaN | Num i \<Rightarrow> Num (i + k))"

text \<open>\<^verbatim>\<open>v - 1\<close>: both operands go through \<^verbatim>\<open>ToNumber\<close>.\<close>

definition js_minus_one :: "jsval \<Rightarrow> jsval" where
  "js_minus_one v = Number (num_add (to_number v) (- 1))"

text \<open>
  \<^verbatim>\<open>v + 1\<close>: a string operand makes it a concatenation, anything else is numeric.
\<close>

definition js_plus_one :: "jsval \<Rightarrow> jsval" where
  "js_plus_one v =
     (case v of Str s \<Rightarrow> Str (s @ ''1'') | _ \<Rightarrow> Number (num_add (to_number v) 1))"

text \<open>
  \<^verbatim>\<open>a >= b\<close> where the left operand is a Number (the only use in the source): the right
  operand goes through \<^verbatim>\<open>ToNumber\<close>, and any comparison with \<^verbatim>\<open>NaN\<close> is false.
\<close>

definition num_ge :: "jsnum \<Rightarrow> jsval \<Rightarrow> bool" where
  "num_ge a v =
     (case a of NaN \<Rightarrow> False
      | Num i \<Rightarrow> (case to_number v of NaN \<Rightarrow> False | Num j \<Rightarrow> j \<le> i))"

text \<open>Truthiness (\<^verbatim>\<open>ToBoolean\<close>).\<close>

definition truthy :: "jsval \<Rightarrow> bool" where
  "truthy v =
     (case v of Undefined \<Rightarrow> False | Null \<Rightarrow> False | Str s \<Rightarrow> s \<noteq> []
      | Number x \<Rightarrow> (case x of NaN \<Rightarrow> False | Num i \<Rightarrow> i \<noteq> 0))"

subsection \<open>Strings: indexOf, replace, replaceAll, split, includes, endsWith\<close>

text \<open>
  \<^verbatim>\<open>StringIndexOf\<close>: the first position at or after \<open>k\<close> where \<open>pat\<close> occurs; the second
  argument is the text from position \<open>k\<close> on.
\<close>

fun index_from :: "string \<Rightarrow> string \<Rightarrow> nat \<Rightarrow> nat option" where
  "index_from pat [] k = (if pat = [] then Some k else None)"
| "index_from pat (c # cs) k =
     (if take (length pat) (c # cs) = pat then Some k else index_from pat cs (Suc k))"

definition includes_str :: "string \<Rightarrow> string \<Rightarrow> bool" where
  "includes_str s pat = (index_from pat s 0 \<noteq> None)"

definition endsWith :: "string \<Rightarrow> string \<Rightarrow> bool" where
  "endsWith s suffix =
     (length suffix \<le> length s \<and> drop (length s - length suffix) s = suffix)"

text \<open>
  \<^verbatim>\<open>GetSubstitution\<close> for a string pattern (no capture groups): in the replacement text
  \<^verbatim>\<open>$$\<close> is a dollar sign, \<^verbatim>\<open>$&\<close> the matched text, \<^verbatim>\<open>$`\<close> the text before the match and
  \<^verbatim>\<open>$'\<close> the text after it; any other \<^verbatim>\<open>$\<close> stands for itself.
\<close>

fun get_substitution :: "string \<Rightarrow> string \<Rightarrow> string \<Rightarrow> string \<Rightarrow> string" where
  "get_substitution matched preceding following [] = []"
| "get_substitution matched preceding following [c] = [c]"
| "get_substitution matched preceding following (c # d # ds) =
     (if c = CHR ''$'' \<and> d = CHR ''$'' then CHR ''$'' # get_substitution matched preceding following ds
      else if c = CHR ''$'' \<and> d = CHR ''&'' then matched @ get_substitution matched preceding following ds
      else if c = CHR ''$'' \<and> d = CHR 0x60 then preceding @ get_substitution matched preceding following ds
      else if c = CHR ''$'' \<and> d = CHR 0x27 then following @ get_substitution matched preceding following ds
      else c # get_substitution matched preceding following (d # ds))"

text \<open>\<^verbatim>\<open>String.prototype.replace\<close> with a string pattern: the first occurrence only.\<close>

definition replace :: "string \<Rightarrow> string \<Rightarrow> string \<Rightarrow> string" where
  "replace s pat replacement =
     (case index_from pat s 0 of
        None \<Rightarrow> s
      | Some p \<Rightarrow>
          take p s
          @ get_substitution pat (take p s) (drop (p + length pat) s) replacement
          @ drop (p + length pat) s)"

text \<open>
  \<^verbatim>\<open>String.prototype.replaceAll\<close> with a string pattern: the occurrences are searched
  from left to right, each search starting \<open>max 1 (length pat)\<close> after the previous match.
  \<open>whole\<close> is the entire text, \<open>k\<close> the position reached and the third argument the text
  from \<open>k\<close> on.
\<close>

function replaceAll_from :: "string \<Rightarrow> string \<Rightarrow> string \<Rightarrow> nat \<Rightarrow> string \<Rightarrow> string" where
  "replaceAll_from whole pat replacement k s =
     (if take (length pat) s = pat \<and> length pat \<le> length s
      then get_substitution pat (take k whole) (drop (k + length pat) whole) replacement
           @ (if pat = []
              then (case s of [] \<Rightarrow> []
                    | c # cs \<Rightarrow> c # replaceAll_from whole pat replacement (Suc k) cs)
              else replaceAll_from whole pat replacement (k + length pat) (drop (length pat) s))
      else (case s of [] \<Rightarrow> []
            | c # cs \<Rightarrow> c # replaceAll_from whole pat replacement (Suc k) cs))"
  by pat_completeness auto
termination
  by (relation "measure (\<lambda>(whole, pat, replacement, k, s). length s)")
     (auto simp: neq_Nil_conv)

declare replaceAll_from.simps [simp del]

definition replaceAll :: "string \<Rightarrow> string \<Rightarrow> string \<Rightarrow> string" where
  "replaceAll s pat replacement = replaceAll_from s pat replacement 0 s"

text \<open>
  \<^verbatim>\<open>String.prototype.split\<close> with a string separator and no limit; \<open>cur\<close> is the piece
  being read. An empty separator splits into single characters.
\<close>

function split_from :: "string \<Rightarrow> string \<Rightarrow> string \<Rightarrow> string list" where
  "split_from sep cur s =
     (case s of [] \<Rightarrow> [cur]
      | c # cs \<Rightarrow>
          if sep \<noteq> [] \<and> take (length sep) s = sep
          then cur # split_from sep [] (drop (length sep) s)
          else split_from sep (cur @ [c]) cs)"
  by pat_completeness auto
termination
  by (relation "measure (\<lambda>(sep, cur, s). length s)")
     (auto simp: neq_Nil_conv)

declare split_from.simps [simp del]

definition split :: "string \<Rightarrow> string \<Rightarrow> string list" where
  "split s sep = (if sep = [] then map (\<lambda>c. [c]) s else split_from sep [] s)"

subsection \<open>Arrays and ArrayBuffers\<close>

text \<open>Reading an array element: \<^verbatim>\<open>undefined\<close> past the end.\<close>

definition js_index :: "jsval list \<Rightarrow> nat \<Rightarrow> jsval" where
  "js_index a i = (if i < length a then a ! i else Undefined)"

text \<open>Assigning an array element: past the end the array grows, the gap being empty slots.\<close>

definition set_index :: "jsval list \<Rightarrow> nat \<Rightarrow> jsval \<Rightarrow> jsval list" where
  "set_index a i v =
     (if i < length a then a[i := v] else a @ replicate (i - length a) Undefined @ [v])"

text \<open>
  \<^verbatim>\<open>ToIntegerOrInfinity\<close> followed by the clamping of a relative index into a buffer of
  \<open>len\<close> bytes: \<^verbatim>\<open>NaN\<close> is 0, a negative index counts from the end.
\<close>

definition relative_index :: "int \<Rightarrow> jsval \<Rightarrow> int" where
  "relative_index len v =
     (case to_number v of NaN \<Rightarrow> 0
      | Num i \<Rightarrow> (if i < 0 then max (len + i) 0 else min i len))"

text \<open>\<^verbatim>\<open>ArrayBuffer.prototype.slice(begin, end)\<close>.\<close>

definition slice :: "byte list \<Rightarrow> jsval \<Rightarrow> jsval \<Rightarrow> byte list" where
  "slice buf start stop =
     (let len = int (length buf);
          first = relative_index len start;
          final = relative_index len stop
      in take (nat (max (final - first) 0)) (drop (nat first) buf))"

section \<open>HTTP requests, the origin and responses\<close>

type_synonym headers = "string \<rightharpoonup> string"

text \<open>
  The incoming request, as far as the functions read it: its method, the search parameters
  of its URL and its headers (header names in lower case, as \<^verbatim>\<open>Headers.get\<close> looks
  them up without regard to case).
\<close>

record request =
  http_method :: string
  search_params :: "string \<rightharpoonup> string"
  headers :: headers

text \<open>\<^verbatim>\<open>Headers.get\<close> and \<^verbatim>\<open>URLSearchParams.get\<close>: \<^verbatim>\<open>null\<close> when the name is absent.\<close>

definition get :: "(string \<rightharpoonup> string) \<Rightarrow> string \<Rightarrow> jsval" where
  "get m name = (case m name of None \<Rightarrow> Null | Some v \<Rightarrow> Str v)"

text \<open>
  \<^verbatim>\<open>new URL(s)\<close> is the platform's URL parser. It is a parameter of the model: \<open>None\<close>
  when the constructor throws, otherwise the three components the functions read.
\<close>

record parsed_url =
  protocol :: string
  host :: string
  pathname :: string

type_synonym url_parser = "string \<Rightarrow> parsed_url option"

text \<open>
  An outbound \<^verbatim>\<open>fetch\<close> and what it gives: a rejected promise (network failure) or the
  origin's response, whatever its status. The network is a function of the position of the
  call in the run (0 for the first fetch, 1 for the second) and of the request sent.
\<close>

record fetch_request =
  fetch_url :: string
  fetch_method :: string
  fetch_headers :: headers

record origin_response =
  status :: nat
  response_headers :: headers
  body :: "byte list"

datatype fetch_result = NetworkError | Fetched origin_response

type_synonym network = "nat \<Rightarrow> fetch_request \<Rightarrow> fetch_result"

text \<open>
  What a function produces: a \<^verbatim>\<open>Response\<close> (with a \<^verbatim>\<open>null\<close> or a present body), or an
  exception that nothing catches, so that the promise of the function is rejected.
\<close>

record 'b response =
  r_status :: nat
  r_headers :: headers
  r_body :: "'b option"

datatype 'b outcome = Threw | Returned "'b response"

definition null_body_status :: "nat \<Rightarrow> bool" where
  "null_body_status s = (s = 101 \<or> s = 103 \<or> s = 204 \<or> s = 205 \<or> s = 304)"

text \<open>
  \<^verbatim>\<open>new Response(body, {status, headers})\<close>: a RangeError for a status outside 200..599,
  a TypeError for a present body with a null-body status.
\<close>

definition new_Response :: "'b option \<Rightarrow> nat \<Rightarrow> headers \<Rightarrow> 'b outcome" where
  "new_Response b st hs =
     (if st < 200 \<or> 599 < st then Threw
      else if b \<noteq> None \<and> null_body_status st then Threw
      else Returned \<lparr>r_status = st, r_headers = hs, r_body = b\<rparr>)"

section \<open>The range parser (archive.js and archive-wacz.js, the same text in both)\<close>

text \<open>
  \<^verbatim>\<open>parseRangeHeader(range, fullContentLength)\<close>. The \<^verbatim>\<open>try\<close> block fails exactly when
  \<^verbatim>\<open>range\<close> is not a string (\<^verbatim>\<open>null.replace\<close> is a TypeError); the \<^verbatim>\<open>catch\<close> then sets the
  default pair. The two \<^verbatim>\<open>parseInt\<close> assignments and the clamp of the second element run
  in both cases. The result is the array \<^verbatim>\<open>coord\<close>.
\<close>

definition parseRangeHeader :: "jsval \<Rightarrow> jsval \<Rightarrow> jsval list" where
  "parseRangeHeader range0 fullContentLength =
     (let coord0 =
            (case range0 of
               Str r \<Rightarrow> map Str (split (replace r ''bytes='' []) ''-'')
             | _ \<Rightarrow> [Number (Num 0), js_minus_one fullContentLength]);
          coord1 = set_index coord0 0 (Number (parseInt (js_index coord0 0)));
          coord2 = set_index coord1 1 (Number (parseInt (js_index coord1 1)))
      in if isNaN (js_index coord2 1)
            \<or> num_ge (to_number (js_index coord2 1)) fullContentLength
         then set_index coord2 1 (js_minus_one fullContentLength)
         else coord2)"

section \<open>archive.js\<close>

definition quoted :: "string \<Rightarrow> string" where
  "quoted s = CHR 0x22 # s @ [CHR 0x22]"

text \<open>
  The \<^verbatim>\<open>try\<close> block that validates \<^verbatim>\<open>archive-url\<close>: \<open>None\<close> when it throws (the
  \<^verbatim>\<open>catch\<close> answers 400), otherwise the file extension.
\<close>

definition validate_archive :: "url_parser \<Rightarrow> string list \<Rightarrow> jsval \<Rightarrow> string option" where
  "validate_archive new_URL allowlist archiveUrl =
     (case new_URL (to_string archiveUrl) of
        None \<Rightarrow> None
      | Some parsedArchiveUrl \<Rightarrow>
          (let ext0 = (if endsWith (pathname parsedArchiveUrl) ''.wacz''
                       then Some ''.wacz'' else None);
               fileExtension = (if endsWith (pathname parsedArchiveUrl) ''.warc.gz''
                                then Some ''.warc.gz'' else ext0)
           in if fileExtension = None then None
              else if protocol parsedArchiveUrl \<notin> set [''http:'', ''https:''] then None
              else if host parsedArchiveUrl \<notin> set allowlist then None
              else fileExtension))"

text \<open>The transfer when the origin supports range requests.\<close>

definition passthrough ::
  "network \<Rightarrow> request \<Rightarrow> jsval \<Rightarrow> headers \<Rightarrow> fetch_request list \<times> byte list outcome" where
  "passthrough net request archiveUrl returnHeaders =
     (let sent = \<lparr>fetch_url = to_string archiveUrl, fetch_method = http_method request,
                  fetch_headers = headers request\<rparr>
      in case net 1 sent of
           NetworkError \<Rightarrow> ([sent], Threw)
         | Fetched response \<Rightarrow>
             (let data = (if http_method request = ''HEAD'' then None else Some (body response));
                  h1 = returnHeaders(''content-length'' \<mapsto>
                         to_string (get (response_headers response) ''content-length''));
                  h2 = (if truthy (get (response_headers response) ''etag'')
                        then h1(''etag'' \<mapsto> to_string (get (response_headers response) ''etag''))
                        else h1);
                  h3 = (if truthy (get (response_headers response) ''content-range'')
                        then h2(''content-range'' \<mapsto>
                               to_string (get (response_headers response) ''content-range''))
                        else h2)
              in ([sent], new_Response data (status response) h3)))"

text \<open>The transfer when it does not: fetch the whole object and cut the range out of it.\<close>

definition polyfill ::
  "network \<Rightarrow> request \<Rightarrow> jsval \<Rightarrow> headers \<Rightarrow> jsval \<Rightarrow> fetch_request list \<times> byte list outcome" where
  "polyfill net request archiveUrl returnHeaders archiveByteLength0 =
     (let sent = \<lparr>fetch_url = to_string archiveUrl,
                  fetch_method = (if truthy archiveByteLength0 then http_method request else ''GET''),
                  fetch_headers = Map.empty\<rparr>
      in case net 1 sent of
           NetworkError \<Rightarrow> ([sent], Threw)
         | Fetched response \<Rightarrow>
             (let data0 = (if http_method request = ''HEAD'' then None else Some (body response));
                  archiveByteLength =
                    (case data0 of
                       None \<Rightarrow> archiveByteLength0
                     | Some d \<Rightarrow> (if archiveByteLength0 = Null
                                  then Number (Num (int (length d))) else archiveByteLength0));
                  range1 = parseRangeHeader (get (headers request) ''range'') archiveByteLength;
                  data = (case data0 of
                            None \<Rightarrow> None
                          | Some d \<Rightarrow> Some (slice d (js_index range1 0)
                                                      (js_plus_one (js_index range1 1))));
                  h1 = returnHeaders(''content-range'' \<mapsto>
                         ''bytes '' @ to_string (js_index range1 0) @ ''-''
                         @ to_string (js_index range1 1) @ ''/'' @ to_string archiveByteLength);
                  h2 = h1(''content-length'' \<mapsto>
                         (case data of None \<Rightarrow> ''0'' | Some d \<Rightarrow> dec (length d)));
                  h3 = (if truthy (get (response_headers response) ''etag'')
                        then h2(''etag'' \<mapsto> to_string (get (response_headers response) ''etag''))
                        else h2)
              in ([sent], new_Response data 206 h3)))"

text \<open>
  The capability check on the probe's response: whether the origin supports range
  requests, and the byte length it declares (\<^verbatim>\<open>null\<close> when it declares none).
\<close>

definition supportsRange :: "origin_response \<Rightarrow> bool" where
  "supportsRange response =
     (truthy (get (response_headers response) ''accept-ranges'')
      \<and> truthy (get (response_headers response) ''content-length''))"

definition probedByteLength :: "origin_response \<Rightarrow> jsval" where
  "probedByteLength response =
     (if truthy (get (response_headers response) ''content-length'')
      then get (response_headers response) ''content-length'' else Null)"

text \<open>The extension-specific headers added to \<^verbatim>\<open>returnHeaders\<close>.\<close>

definition extension_headers :: "headers \<Rightarrow> string \<Rightarrow> headers" where
  "extension_headers returnHeaders fileExtension =
     (if fileExtension = ''.wacz''
      then returnHeaders(
             ''content-type'' \<mapsto> ''binary/octet-stream'',
             ''content-disposition'' \<mapsto> ''attachment; filename='' @ quoted ''archive.wacz'')
      else returnHeaders(
             ''content-type'' \<mapsto> ''application/x-gzip'',
             ''content-disposition'' \<mapsto> ''attachment; filename='' @ quoted ''archive.warc.gz''))"

text \<open>
  The exported function. The three early \<^verbatim>\<open>new Response(null, {status, returnHeaders})\<close>
  pass the headers under the key \<^verbatim>\<open>returnHeaders\<close>, which is not a member of the
  constructor's options (\<^verbatim>\<open>status\<close>, \<^verbatim>\<open>statusText\<close>, \<^verbatim>\<open>headers\<close>) and is ignored: these
  responses have no header. The result is the list of the fetches sent, in order, and the
  outcome.
\<close>

definition archive ::
  "url_parser \<Rightarrow> string list \<Rightarrow> network \<Rightarrow> request \<Rightarrow> fetch_request list \<times> byte list outcome" where
  "archive new_URL allowlist net request =
     (let returnHeaders0 = [''access-control-allow-origin'' \<mapsto> ''*'',
                            ''accept-ranges'' \<mapsto> ''bytes'']
      in if http_method request \<notin> set [''GET'', ''HEAD'']
         then ([], new_Response None 405 Map.empty)
         else
           (let archiveUrl = get (search_params request) ''archive-url''
            in case validate_archive new_URL allowlist archiveUrl of
                 None \<Rightarrow> ([], new_Response None 400 Map.empty)
               | Some fileExtension \<Rightarrow>
                   (let returnHeaders = extension_headers returnHeaders0 fileExtension;
                        probe = \<lparr>fetch_url = to_string archiveUrl, fetch_method = ''HEAD'',
                                 fetch_headers = Map.empty\<rparr>
                    in case net 0 probe of
                         NetworkError \<Rightarrow> ([probe], new_Response None 404 Map.empty)
                       | Fetched response \<Rightarrow>
                           (let transfer =
                                  (if supportsRange response
                                   then passthrough net request archiveUrl returnHeaders
                                   else polyfill net request archiveUrl returnHeaders
                                          (probedByteLength response))
                            in (probe # fst transfer, snd transfer)))))"

section \<open>archive-wacz.js\<close>

definition validate_wacz :: "url_parser \<Rightarrow> string list \<Rightarrow> jsval \<Rightarrow> bool" where
  "validate_wacz new_URL allowlist archiveUrl =
     (case new_URL (to_string archiveUrl) of
        None \<Rightarrow> False
      | Some parsedArchiveUrl \<Rightarrow>
          (if endsWith (pathname parsedArchiveUrl) ''.wacz'' \<noteq> True then False
           else if protocol parsedArchiveUrl \<notin> set [''http:'', ''https:''] then False
           else if host parsedArchiveUrl \<notin> set allowlist then False
           else True))"

definition passthrough_wacz ::
  "network \<Rightarrow> request \<Rightarrow> jsval \<Rightarrow> headers \<Rightarrow> fetch_request list \<times> byte list outcome" where
  "passthrough_wacz net request archiveUrl returnHeaders =
     (let sent = \<lparr>fetch_url = to_string archiveUrl, fetch_method = http_method request,
                  fetch_headers = headers request\<rparr>
      in case net 1 sent of
           NetworkError \<Rightarrow> ([sent], Threw)
         | Fetched response \<Rightarrow>
             (let data = (if http_method request = ''HEAD'' then None else Some (body response));
                  h0 = returnHeaders(''content-disposition'' \<mapsto>
                         ''attachment; filename='' @ quoted ''archive.wacz'');
                  h1 = h0(''content-length'' \<mapsto>
                         to_string (get (response_headers response) ''content-length''));
                  h2 = (if truthy (get (response_headers response) ''etag'')
                        then h1(''etag'' \<mapsto> to_string (get (response_headers response) ''etag''))
                        else h1);
                  h3 = (if truthy (get (response_headers response) ''content-range'')
                        then h2(''content-range'' \<mapsto>
                               to_string (get (response_headers response) ''content-range''))
                        else h2)
              in ([sent], new_Response data (status response) h3)))"

text \<open>
  The polyfill branch of archive-wacz.js reads \<^verbatim>\<open>data.byteLength\<close> without a guard:
  when \<^verbatim>\<open>data\<close> is \<^verbatim>\<open>null\<close> (a HEAD request) this is a TypeError outside any \<^verbatim>\<open>try\<close>.
\<close>

definition polyfill_wacz ::
  "network \<Rightarrow> request \<Rightarrow> jsval \<Rightarrow> headers \<Rightarrow> jsval \<Rightarrow> fetch_request list \<times> byte list outcome" where
  "polyfill_wacz net request archiveUrl returnHeaders archiveByteLength0 =
     (let sent = \<lparr>fetch_url = to_string archiveUrl,
                  fetch_method = (if truthy archiveByteLength0 then http_method request else ''GET''),
                  fetch_headers = Map.empty\<rparr>
      in case net 1 sent of
           NetworkError \<Rightarrow> ([sent], Threw)
         | Fetched response \<Rightarrow>
             (let data0 = (if http_method request = ''HEAD'' then None else Some (body response));
                  archiveByteLength =
                    (case data0 of
                       None \<Rightarrow> archiveByteLength0
                     | Some d \<Rightarrow> (if archiveByteLength0 = Null
                                  then Number (Num (int (length d))) else archiveByteLength0));
                  range1 = parseRangeHeader (get (headers request) ''range'') archiveByteLength;
                  data = (case data0 of
                            None \<Rightarrow> None
                          | Some d \<Rightarrow> Some (slice d (js_index range1 0)
                                                      (js_plus_one (js_index range1 1))));
                  h0 = returnHeaders(''content-disposition'' \<mapsto>
                         ''attachment; filename='' @ quoted ''archive.wacz'');
                  h1 = h0(''content-range'' \<mapsto>
                         ''bytes '' @ to_string (js_index range1 0) @ ''-''
                         @ to_string (js_index range1 1) @ ''/'' @ to_string archiveByteLength)
              in case data of
                   None \<Rightarrow> ([sent], Threw)
                 | Some d \<Rightarrow>
                     (let h2 = h1(''content-length'' \<mapsto> dec (length d));
                          h3 = (if truthy (get (response_headers response) ''etag'')
                                then h2(''etag'' \<mapsto>
                                       to_string (get (response_headers response) ''etag''))
                                else h2)
                      in ([sent], new_Response data 206 h3))))"

definition archive_wacz ::
  "url_parser \<Rightarrow> string list \<Rightarrow> network \<Rightarrow> request \<Rightarrow> fetch_request list \<times> byte list outcome" where
  "archive_wacz new_URL allowlist net request =
     (let returnHeaders = [''access-control-allow-origin'' \<mapsto> ''*'',
                           ''accept-ranges'' \<mapsto> ''bytes'',
                           ''content-type'' \<mapsto> ''binary/octet-stream'']
      in if http_method request \<notin> set [''GET'', ''HEAD'']
         then ([], new_Response None 405 Map.empty)
         else
           (let archiveUrl = get (search_params request) ''archive-url''
            in if validate_wacz new_URL allowlist archiveUrl
               then
                 (let probe = \<lparr>fetch_url = to_string archiveUrl, fetch_method = ''HEAD'',
                               fetch_headers = Map.empty\<rparr>
                  in case net 0 probe of
                       NetworkError \<Rightarrow> ([probe], new_Response None 404 Map.empty)
                     | Fetched response \<Rightarrow>
                         (let transfer =
                                (if supportsRange response
                                 then passthrough_wacz net request archiveUrl returnHeaders
                                 else polyfill_wacz net request archiveUrl returnHeaders
                                        (probedByteLength response))
                          in (probe # fst transfer, snd transfer)))
               else ([], new_Response None 400 Map.empty)))"

section \<open>archive-warc-gz.js\<close>

definition validate_warc_gz :: "url_parser \<Rightarrow> string list \<Rightarrow> jsval \<Rightarrow> bool" where
  "validate_warc_gz new_URL allowlist archiveUrl =
     (case new_URL (to_string archiveUrl) of
        None \<Rightarrow> False
      | Some parsedArchiveUrl \<Rightarrow>
          (if endsWith (pathname parsedArchiveUrl) ''.warc.gz'' \<noteq> True then False
           else if protocol parsedArchiveUrl \<notin> set [''http:'', ''https:''] then False
           else if host parsedArchiveUrl \<notin> set allowlist then False
           else True))"

text \<open>
  One fetch (a GET with no header of the client's), inside a \<^verbatim>\<open>try\<close> whose \<^verbatim>\<open>catch\<close>
  answers 404. The success response too passes its headers under the ignored key
  \<^verbatim>\<open>returnHeaders\<close>.
\<close>

definition archive_warc_gz ::
  "url_parser \<Rightarrow> string list \<Rightarrow> network \<Rightarrow> request \<Rightarrow> fetch_request list \<times> byte list outcome" where
  "archive_warc_gz new_URL allowlist net request =
     (if http_method request \<notin> set [''GET'', ''HEAD'']
      then ([], new_Response None 405 Map.empty)
      else
        (let archiveUrl = get (search_params request) ''archive-url''
         in if validate_warc_gz new_URL allowlist archiveUrl
            then
              (let sent = \<lparr>fetch_url = to_string archiveUrl, fetch_method = ''GET'',
                           fetch_headers = Map.empty\<rparr>
               in case net 0 sent of
                    NetworkError \<Rightarrow> ([sent], new_Response None 404 Map.empty)
                  | Fetched response \<Rightarrow>
                      ([sent], new_Response (Some (body response)) 200 Map.empty))
            else ([], new_Response None 400 Map.empty)))"

section \<open>The embed templating function\<close>

text \<open>The page that \<^verbatim>\<open>context.next()\<close> gives: the response for embed.html.\<close>

record page_response =
  page_status :: nat
  page_headers :: headers
  page_text :: string

text \<open>
  The exported function. Both URL parameters must parse; the three placeholders are then
  replaced one after the other, each \<^verbatim>\<open>replaceAll\<close> working on the result of the one
  before. \<^verbatim>\<open>new Response(page, response)\<close> takes the status and the headers of the page's
  response, and gives a text body its content type when the headers have none.
\<close>

definition embed :: "url_parser \<Rightarrow> page_response \<Rightarrow> request \<Rightarrow> string outcome" where
  "embed new_URL next_response request =
     (let returnHeaders = [''access-control-allow-origin'' \<mapsto> ''*'']
      in if http_method request \<notin> set [''GET'', ''HEAD'']
         then new_Response None 405 Map.empty
         else
           (let archiveUrl = get (search_params request) ''archive-url'';
                originalUrl = get (search_params request) ''original-url''
            in if new_URL (to_string archiveUrl) = None \<or> new_URL (to_string originalUrl) = None
               then new_Response None 400 Map.empty
               else
                 (let page0 = page_text next_response;
                      page1 = replaceAll page0 ''{{original-url}}'' (to_string originalUrl);
                      page2 = replaceAll page1 ''{{archive-url}}'' (to_string archiveUrl)
                  in case archiveUrl of
                       Str a \<Rightarrow>
                         (let page3 = replaceAll page2 ''{{format}}''
                                        (if includes_str a ''wacz'' then ''wacz'' else ''warc.gz'');
                              h0 = page_headers next_response ++ returnHeaders;
                              h1 = (if h0 ''content-type'' = None
                                    then h0(''content-type'' \<mapsto> ''text/plain;charset=UTF-8'')
                                    else h0)
                          in new_Response (Some page3) (page_status next_response) h1)
                     | _ \<Rightarrow> Threw)))"

section \<open>Observing an outcome, and the inputs of the examples\<close>

text \<open>
  What the client sees of an outcome: the status, one header, the body. A function that
  threw sent nothing.
\<close>

definition sent_status :: "'b outcome \<Rightarrow> nat option" where
  "sent_status out = (case out of Threw \<Rightarrow> None | Returned r \<Rightarrow> Some (r_status r))"

definition sent_header :: "'b outcome \<Rightarrow> string \<Rightarrow> string option" where
  "sent_header out name = (case out of Threw \<Rightarrow> None | Returned r \<Rightarrow> r_headers r name)"

definition sent_body :: "'b outcome \<Rightarrow> 'b option" where
  "sent_body out = (case out of Threw \<Rightarrow> None | Returned r \<Rightarrow> r_body r)"

definition threw :: "'b outcome \<Rightarrow> bool" where
  "threw out = (case out of Threw \<Rightarrow> True | Returned r \<Rightarrow> False)"

text \<open>
  The examples below use one archive URL, on a host of the allowlist, a URL parser that
  knows this URL and the embed example's, and a network given by the results of its first
  and of its second fetch.
\<close>

definition example_URL :: url_parser where
  "example_URL s =
     (if s = ''https://a.example/x.wacz''
      then Some \<lparr>protocol = ''https:'', host = ''a.example'', pathname = ''/x.wacz''\<rparr>
      else if s = ''https://wacz.example/x.warc.gz''
      then Some \<lparr>protocol = ''https:'', host = ''wacz.example'', pathname = ''/x.warc.gz''\<rparr>
      else None)"

definition example_allowlist :: "string list" where
  "example_allowlist = [''a.example'']"

definition example_request :: "string \<Rightarrow> headers \<Rightarrow> request" where
  "example_request m hs =
     \<lparr>http_method = m, search_params = [''archive-url'' \<mapsto> ''https://a.example/x.wacz''],
      headers = hs\<rparr>"

definition example_net :: "fetch_result \<Rightarrow> fetch_result \<Rightarrow> network" where
  "example_net first_result second_result k sent = (if k = 0 then first_result else second_result)"

section \<open>Facts about the conversions\<close>

lemma digit_val_digit_char: "d < 10 \<Longrightarrow> digit_val (digit_char d) = Some d"
  by (simp add: digit_val_def digit_char_def Let_def)

lemma is_radix_digit_digit_char: "d < 10 \<Longrightarrow> is_radix_digit 10 (digit_char d)"
  by (simp add: is_radix_digit_def digit_val_digit_char)

lemma dec_not_Nil: "dec n \<noteq> []"
  by (subst dec.simps) simp

lemma dec_all_digits: "list_all (is_radix_digit 10) (dec n)"
proof (induction n rule: dec.induct)
  case (1 n)
  show ?case
  proof (cases "n < 10")
    case True
    then show ?thesis by (subst dec.simps) (simp add: is_radix_digit_digit_char)
  next
    case False
    with 1 show ?thesis by (subst dec.simps) (simp add: is_radix_digit_digit_char)
  qed
qed

lemma digits_value_snoc:
  "digits_value r (z @ [c]) = digits_value r z * r + (case digit_val c of None \<Rightarrow> 0 | Some d \<Rightarrow> d)"
  by (simp add: digits_value_def)

lemma digits_value_dec: "digits_value 10 (dec n) = n"
proof (induction n rule: dec.induct)
  case (1 n)
  show ?case
  proof (cases "n < 10")
    case True
    then show ?thesis
      by (subst dec.simps) (simp add: digits_value_def digit_val_digit_char)
  next
    case False
    with 1 show ?thesis
      by (subst dec.simps) (simp add: digits_value_snoc digit_val_digit_char)
  qed
qed

lemma radix_digit_not_whitespace: "is_radix_digit 10 c \<Longrightarrow> \<not> is_js_whitespace c"
  by (auto simp: is_radix_digit_def digit_val_def is_js_whitespace_def Let_def split: if_splits)

lemma radix_digit_not_special:
  "is_radix_digit 10 c \<Longrightarrow> c \<noteq> CHR ''-'' \<and> c \<noteq> CHR ''+'' \<and> c \<noteq> CHR ''x'' \<and> c \<noteq> CHR ''X''"
  by (auto simp: is_radix_digit_def digit_val_def Let_def split: if_splits)

lemma hd_dec_digit: "is_radix_digit 10 (hd (dec n))"
  using dec_all_digits [of n] dec_not_Nil [of n] by (cases "dec n") simp_all

lemma parseInt_string_digits:
  assumes "s \<noteq> []" and "list_all (is_radix_digit 10) s"
  shows "parseInt_string s = Num (int (digits_value 10 s))"
proof -
  obtain c cs where d: "s = c # cs" using assms(1) by (cases s) auto
  have c: "is_radix_digit 10 c" using assms(2) d by simp
  have tw: "takeWhile (is_radix_digit 10) (c # cs) = c # cs"
    using assms(2) d by (simp add: takeWhile_eq_all_conv list_all_iff)
  note cf = radix_digit_not_whitespace [OF c] radix_digit_not_special [OF c]
  show ?thesis
  proof (cases cs)
    case Nil
    with d c cf show ?thesis by (simp add: parseInt_string_def Let_def)
  next
    case (Cons e es)
    with assms(2) d have e: "is_radix_digit 10 e" by simp
    have tw2: "takeWhile (is_radix_digit 10) es = es"
      using tw c e Cons by simp
    from Cons d c e cf radix_digit_not_special [OF e] show ?thesis
      by (simp add: parseInt_string_def Let_def tw2)
  qed
qed

lemma parseInt_string_dec: "parseInt_string (dec n) = Num (int n)"
  by (simp add: parseInt_string_digits dec_not_Nil dec_all_digits digits_value_dec)

lemma to_string_nat: "to_string (Number (Num (int n))) = dec n"
  by (simp add: to_string_def number_to_string_def)

lemma parseInt_Str_dec: "parseInt (Str (dec n)) = Num (int n)"
  by (simp add: parseInt_def to_string_def parseInt_string_dec)

lemma parseInt_undefined: "parseInt Undefined = NaN"
  by (simp add: parseInt_def to_string_def parseInt_string_def is_js_whitespace_def
      is_radix_digit_def digit_val_def Let_def)


lemma string_to_number_dec: "string_to_number (dec n) = Num (int n)"
proof -
  have ne: "dec n \<noteq> []" by (rule dec_not_Nil)
  have all: "list_all (is_radix_digit 10) (dec n)" by (rule dec_all_digits)
  have nows: "\<forall>c \<in> set (dec n). \<not> is_js_whitespace c"
    using all radix_digit_not_whitespace by (auto simp: list_all_iff)
  have h: "\<not> is_js_whitespace (hd (dec n))" using nows ne by simp
  have l: "\<not> is_js_whitespace (hd (rev (dec n)))" using nows ne by (simp add: hd_rev)
  have d1: "dropWhile is_js_whitespace (dec n) = dec n"
    using h ne by (cases "dec n") simp_all
  have d2: "dropWhile is_js_whitespace (rev (dec n)) = rev (dec n)"
    using l ne by (cases "rev (dec n)") simp_all
  have sg: "take 1 (dec n) \<noteq> ''-'' \<and> take 1 (dec n) \<noteq> ''+''"
    using radix_digit_not_special [OF hd_dec_digit [of n]] ne by (cases "dec n") simp_all
  show ?thesis
    unfolding string_to_number_def Let_def d1 d2 rev_rev_ident
    using sg ne all digits_value_dec [of n] by simp
qed

lemma to_number_Str_dec: "to_number (Str (dec n)) = Num (int n)"
  by (simp add: to_number_def string_to_number_dec)

lemma dec_no_dash: "CHR ''-'' \<notin> set (dec n)"
  using dec_all_digits [of n] radix_digit_not_special by (auto simp: list_all_iff)

lemma split_from_no_sep:
  "c \<notin> set xs \<Longrightarrow> split_from [c] cur xs = [cur @ xs]"
proof (induction xs arbitrary: cur)
  case Nil
  show ?case by (subst split_from.simps) simp
next
  case (Cons x xs)
  then show ?case by (subst split_from.simps) auto
qed

lemma split_from_first_sep:
  "c \<notin> set xs \<Longrightarrow> split_from [c] cur (xs @ c # rest) = (cur @ xs) # split_from [c] [] rest"
proof (induction xs arbitrary: cur)
  case Nil
  show ?case by (subst split_from.simps) simp
next
  case (Cons x xs)
  then show ?case by (subst split_from.simps) auto
qed

lemma replace_bytes_prefix:
  "replace (CHR ''b'' # CHR ''y'' # CHR ''t'' # CHR ''e'' # CHR ''s'' # CHR ''='' # rest) ''bytes='' [] = rest"
  by (simp add: replace_def)

lemma split_closed_range:
  "split (dec a @ CHR ''-'' # dec b) ''-'' = [dec a, dec b]"
  using split_from_first_sep [OF dec_no_dash, where cur = "[]" and rest = "dec b" and n1 = a]
    split_from_no_sep [OF dec_no_dash, where cur = "[]" and n1 = b]
  by (simp add: split_def)


lemma js_index_set_index_same: "js_index (set_index a i v) i = v"
  by (simp add: js_index_def set_index_def nth_append)

lemma to_number_Number: "to_number (Number x) = x"
  by (simp add: to_number_def)


lemma parseRangeHeader_closed:
  assumes "to_number fcl = Num t" and "int b < t"
  shows "parseRangeHeader (Str (''bytes='' @ dec a @ ''-'' @ dec b)) fcl = [Number (Num (int a)), Number (Num (int b))]"
  using assms
  by (simp add: parseRangeHeader_def Let_def replace_bytes_prefix split_closed_range
      set_index_def js_index_def parseInt_Str_dec isNaN_def num_ge_def to_number_Number)

lemma digits_no_hex:
  "list_all (is_radix_digit 10) s \<Longrightarrow> take 2 s \<noteq> ''0x'' \<and> take 2 s \<noteq> ''0X''"
proof (cases s)
  case Nil then show ?thesis by simp
next
  case (Cons c cs)
  assume a: "list_all (is_radix_digit 10) s"
  show ?thesis
  proof (cases cs)
    case Nil with Cons show ?thesis by simp
  next
    case (Cons e es)
    with a \<open>s = c # cs\<close> have "is_radix_digit 10 e" by simp
    from radix_digit_not_special [OF this] Cons \<open>s = c # cs\<close> show ?thesis by simp
  qed
qed

lemma parseInt_string_minus_digits:
  assumes "s \<noteq> []" and "list_all (is_radix_digit 10) s"
  shows "parseInt_string (CHR ''-'' # s) = Num (- int (digits_value 10 s))"
proof -
  have tw: "takeWhile (is_radix_digit 10) s = s"
    using assms(2) by (simp add: takeWhile_eq_all_conv list_all_iff)
  have nh: "(take 2 s = ''0x'' \<or> take 2 s = ''0X'') = False"
    using digits_no_hex [OF assms(2)] by simp
  have ws: "dropWhile is_js_whitespace (CHR ''-'' # s) = CHR ''-'' # s"
    by (simp add: is_js_whitespace_def)
  show ?thesis
    unfolding parseInt_string_def Let_def ws
    using assms(1) by (simp add: nh tw)
qed

lemma parseInt_Number: "parseInt (Number (Num i)) = Num i"
proof (cases "i < 0")
  case True
  then show ?thesis
    by (simp add: parseInt_def to_string_def number_to_string_def parseInt_string_minus_digits
        dec_not_Nil dec_all_digits digits_value_dec)
next
  case False
  then show ?thesis
    by (simp add: parseInt_def to_string_def number_to_string_def parseInt_string_dec)
qed

lemma parseRangeHeader_absent:
  assumes "to_number fcl = Num t"
  shows "parseRangeHeader Null fcl = [Number (Num 0), Number (Num (t - 1))]"
proof -
  have m: "js_minus_one fcl = Number (Num (t - 1))"
    using assms by (simp add: js_minus_one_def num_add_def)
  show ?thesis
    unfolding parseRangeHeader_def Let_def m
    using assms
    by (simp add: set_index_def js_index_def isNaN_def num_ge_def parseInt_Number
        to_number_Number)
qed

lemma slice_closed:
  assumes "a \<le> b" and "b < length buf"
  shows "slice buf (Number (Num (int a))) (js_plus_one (Number (Num (int b)))) = take (b - a + 1) (drop a buf)"
proof -
  have "nat (int b + 1 - int a) = b - a + 1" using assms by linarith
  with assms show ?thesis
    by (simp add: slice_def Let_def relative_index_def js_plus_one_def to_number_def num_add_def
        min_def max_def)
qed

lemma split_from_parts_no_sep:
  "c \<notin> set cur \<Longrightarrow> p \<in> set (split_from [c] cur s) \<Longrightarrow> c \<notin> set p"
proof (induction s arbitrary: cur)
  case Nil
  then show ?case by (subst (asm) split_from.simps) simp
next
  case (Cons x xs)
  from Cons.prems(2) show ?case
  proof (subst (asm) split_from.simps, simp split: if_splits)
    assume "x = c" and "p = cur \<or> p \<in> set (split_from [c] [] xs)"
    then show ?thesis using Cons.prems(1) Cons.IH [of "[]"] by auto
  next
    assume "x \<noteq> c" and "p \<in> set (split_from [c] (cur @ [x]) xs)"
    then show ?thesis using Cons.prems(1) Cons.IH [of "cur @ [x]"] by auto
  qed
qed

lemma parseInt_string_no_dash:
  assumes "CHR ''-'' \<notin> set s"
  shows "parseInt_string s = NaN \<or> (\<exists>i. parseInt_string s = Num i \<and> 0 \<le> i)"
proof -
  define d where "d = dropWhile is_js_whitespace s"
  have "CHR ''-'' \<notin> set d"
    unfolding d_def using assms set_dropWhileD by fastforce
  then have "take 1 d \<noteq> ''-''"
    by (cases d) auto
  then have "take 1 (dropWhile is_js_whitespace s) \<noteq> ''-''"
    by (simp add: d_def)
  then show ?thesis
    by (simp add: parseInt_string_def Let_def)
qed

lemma truthy_Str_dec: "truthy (Str (dec n))"
  by (simp add: truthy_def dec_not_Nil)

lemma polyfill_get_closed_range:
  assumes get: "http_method request = ''GET''"
    and len: "archiveByteLength0 = Null \<or> archiveByteLength0 = Str (dec totalLength)"
    and net: "net 1 \<lparr>fetch_url = to_string archiveUrl, fetch_method = ''GET'',
                      fetch_headers = Map.empty\<rparr> = Fetched origin"
    and body: "length (body origin) = totalLength"
    and range: "headers request ''range'' = Some (''bytes='' @ dec a @ ''-'' @ dec b)"
    and ab: "a \<le> b" and bt: "b < totalLength"
  shows "\<exists>r. snd (polyfill net request archiveUrl returnHeaders archiveByteLength0) = Returned r
             \<and> r_status r = 206
             \<and> r_body r = Some (take (b - a + 1) (drop a (body origin)))
             \<and> r_headers r ''content-range''
                 = Some (''bytes '' @ dec a @ ''-'' @ dec b @ ''/'' @ dec totalLength)
             \<and> r_headers r ''content-length'' = Some (dec (b - a + 1))"
proof -
  define abl where "abl = (if archiveByteLength0 = Null
      then Number (Num (int (length (body origin)))) else archiveByteLength0)"
  have m: "(if truthy archiveByteLength0 then http_method request else ''GET'') = ''GET''"
    using get by simp
  have n: "to_number abl = Num (int totalLength)"
    using len body by (auto simp: abl_def to_number_Number to_number_Str_dec)
  have s: "to_string abl = dec totalLength"
    using len body by (auto simp: abl_def to_string_nat) (simp add: to_string_def)
  define hdr where "hdr = ''bytes='' @ dec a @ ''-'' @ dec b"
  have r: "get (headers request) ''range'' = Str hdr"
    using range by (simp add: get_def hdr_def)
  have p: "parseRangeHeader (Str hdr) abl = [Number (Num (int a)), Number (Num (int b))]"
    unfolding hdr_def using bt by (intro parseRangeHeader_closed [OF n]) simp
  have sl: "slice (body origin) (Number (Num (int a))) (js_plus_one (Number (Num (int b))))
            = take (b - a + 1) (drop a (body origin))"
    using slice_closed [OF ab, of "body origin"] bt body by simp
  have l: "length (take (Suc (b - a)) (drop a (body origin))) = Suc (b - a)"
    using ab bt body by simp
  show ?thesis
    unfolding polyfill_def Let_def m net
    using get
    by (simp add: abl_def [symmetric] r p js_index_def sl s to_string_nat new_Response_def
        null_body_status_def l del: length_take length_drop)
qed

section \<open>The range parser\<close>

lemma parseRangeHeader_closed_clamped:
  assumes "to_number fcl = Num t"
  shows "parseRangeHeader (Str (''bytes='' @ dec a @ ''-'' @ dec b)) fcl
         = [Number (Num (int a)), Number (Num (min (int b) (t - 1)))]"
  using assms
  by (simp add: parseRangeHeader_def Let_def replace_bytes_prefix split_closed_range
      set_index_def js_index_def parseInt_Str_dec isNaN_def num_ge_def to_number_Number
      js_minus_one_def num_add_def min_def)

lemma parseInt_second_part:
  "parseInt (js_index (set_index (map Str (split s ''-'')) 0 v) 1) = NaN
   \<or> (\<exists>i. parseInt (js_index (set_index (map Str (split s ''-'')) 0 v) 1) = Num i \<and> 0 \<le> i)"
proof (cases "1 < length (split s ''-'')")
  case True
  then have "split s ''-'' ! 1 \<in> set (split_from ''-'' [] s)"
    by (simp add: split_def)
  then have "CHR ''-'' \<notin> set (split s ''-'' ! 1)"
    using split_from_parts_no_sep [of "CHR ''-''" "[]"] by simp
  from parseInt_string_no_dash [OF this] True show ?thesis
    by (auto simp: js_index_def set_index_def parseInt_def to_string_def)
next
  case False
  then have "js_index (set_index (map Str (split s ''-'')) 0 v) 1 = Undefined"
    by (auto simp: js_index_def set_index_def)
  then show ?thesis by (simp add: parseInt_undefined)
qed

lemma parseRangeHeader_end:
  assumes "to_number fcl = Num (int totalLength)" and "0 < totalLength"
  shows "\<exists>e. js_index (parseRangeHeader r fcl) 1 = Number (Num e) \<and> 0 \<le> e \<and> e < int totalLength"
proof -
  define coord0 where "coord0 =
    (case r of Str s \<Rightarrow> map Str (split (replace s ''bytes='' []) ''-'')
     | _ \<Rightarrow> [Number (Num 0), js_minus_one fcl])"
  define coord1 where "coord1 = set_index coord0 0 (Number (parseInt (js_index coord0 0)))"
  define x where "x = parseInt (js_index coord1 1)"
  define coord2 where "coord2 = set_index coord1 1 (Number x)"
  have c2: "js_index coord2 1 = Number x"
    by (simp add: coord2_def js_index_set_index_same)
  have m: "js_minus_one fcl = Number (Num (int totalLength - 1))"
    using assms by (simp add: js_minus_one_def num_add_def)
  have p: "parseRangeHeader r fcl =
      (if x = NaN \<or> num_ge x fcl then set_index coord2 1 (Number (Num (int totalLength - 1)))
       else coord2)"
    by (simp add: parseRangeHeader_def Let_def coord0_def coord1_def coord2_def x_def
        isNaN_def to_number_Number js_index_set_index_same m)
  have default_pair: "x = Num (int totalLength - 1)" if "coord0 = [Number (Num 0), js_minus_one fcl]"
    using that by (simp add: x_def coord1_def m set_index_def js_index_def parseInt_Number)
  have nonneg: "x = NaN \<or> (\<exists>i. x = Num i \<and> 0 \<le> i)"
  proof (cases r)
    case (Str s)
    then show ?thesis
      unfolding x_def coord1_def coord0_def using parseInt_second_part by simp
  next
    case Undefined
    then show ?thesis using default_pair assms(2) by (simp add: coord0_def)
  next
    case Null
    then show ?thesis using default_pair assms(2) by (simp add: coord0_def)
  next
    case (Number y)
    then show ?thesis using default_pair assms(2) by (simp add: coord0_def)
  qed
  show ?thesis
  proof (cases "x = NaN \<or> num_ge x fcl")
    case True
    then show ?thesis using p assms by (simp add: js_index_set_index_same)
  next
    case False
    then obtain i where i: "x = Num i" by (cases x) auto
    with False assms have "i < int totalLength" by (simp add: num_ge_def)
    moreover from nonneg i have "0 \<le> i" by simp
    ultimately show ?thesis using False p c2 i by simp
  qed
qed

text \<open>
  C2, for the code as it is. The claim is that an absent header, a malformed one and one
  whose parts are no integers all give the whole object \<open>[0, totalLength - 1]\<close>, which
  is also what the comment in the source says (``Defaults to [0, Content-Length -1] if
  unparseable''). The \<^verbatim>\<open>catch\<close> that sets this default runs only for an absent header
  (lemma \<open>parseRangeHeader_absent\<close> above). A header that is present and has no digits
  leaves \<^verbatim>\<open>NaN\<close> as the start: only the end is replaced. Here this is evaluated at the
  header \<^verbatim>\<open>garbage\<close> for an object of 1000 bytes, and the response of archive.js to a GET
  with this header for an object of 4 bytes is shown to carry the start \<^verbatim>\<open>NaN\<close> in its
  \<^verbatim>\<open>content-range\<close>.
\<close>

theorem parseRangeHeader_malformed_start_NaN:
  "parseRangeHeader (Str ''garbage'') (Number (Num 1000)) = [Number NaN, Number (Num 999)]
   \<and> sent_header (snd (archive example_URL example_allowlist
        (example_net (Fetched \<lparr>status = 200, response_headers = Map.empty, body = []\<rparr>)
           (Fetched \<lparr>status = 200, response_headers = Map.empty, body = [10, 20, 30, 40]\<rparr>))
        (example_request ''GET'' [''range'' \<mapsto> ''garbage''])))
       ''content-range'' = Some ''bytes NaN-3/4''"
  by code_simp

text \<open>
  C3, as amended. For every value of the Range header, absent or present, and every known
  total length above 0 and below \<open>2^53\<close>, the end of the range that the parser returns
  is an integer with \<open>0 \<le> end < totalLength\<close>. An absent header gives
  \<open>[0, totalLength - 1]\<close>, and a header \<^verbatim>\<open>bytes=A-B\<close> with \<open>A < 2^53\<close> gives
  \<open>[A, min B (totalLength - 1)]\<close>: the start is never compared with the end or with the
  total length, so \<open>end \<ge> start\<close> holds exactly when the requested start is at most
  that end.
\<close>

theorem parseRangeHeader_end_below_total:
  assumes "to_number fullContentLength = Num (int totalLength)" and "0 < totalLength"
    and "totalLength < 2 ^ 53" and "a < 2 ^ 53"
  shows "(\<exists>e. js_index (parseRangeHeader r fullContentLength) 1 = Number (Num e)
              \<and> 0 \<le> e \<and> e < int totalLength)
         \<and> parseRangeHeader Null fullContentLength
             = [Number (Num 0), Number (Num (int totalLength - 1))]
         \<and> parseRangeHeader (Str (''bytes='' @ dec a @ ''-'' @ dec b)) fullContentLength
             = [Number (Num (int a)), Number (Num (min (int b) (int totalLength - 1)))]"
  using parseRangeHeader_end [OF assms(1,2)] parseRangeHeader_absent [OF assms(1)]
    parseRangeHeader_closed_clamped [OF assms(1)]
  by blast

theorem parseRangeHeader_end_below_total_witness:
  "to_number (Number (Num (int 10))) = Num (int 10) \<and> (0::nat) < 10
   \<and> (10::nat) < 2 ^ 53 \<and> (5::nat) < 2 ^ 53
   \<and> (\<exists>e. js_index (parseRangeHeader (Str ''bytes=5-2'') (Number (Num (int 10)))) 1
            = Number (Num e) \<and> 0 \<le> e \<and> e < int 10)
   \<and> parseRangeHeader Null (Number (Num (int 10))) = [Number (Num 0), Number (Num (int 10 - 1))]
   \<and> parseRangeHeader (Str (''bytes='' @ dec 5 @ ''-'' @ dec 20)) (Number (Num (int 10)))
       = [Number (Num (int 5)), Number (Num (min (int 20) (int 10 - 1)))]"
proof -
  have h1: "to_number (Number (Num (int 10))) = Num (int 10)"
    by (simp add: to_number_Number)
  have h2: "(0::nat) < 10" by simp
  have h3: "(10::nat) < 2 ^ 53" by simp
  have h4: "(5::nat) < 2 ^ 53" by simp
  from parseRangeHeader_end_below_total
         [OF h1 h2 h3 h4, where r = "Str ''bytes=5-2''" and b = 20] h1 h2 h3 h4
  show ?thesis by blast
qed

text \<open>
  The claim C3 as stated (\<open>end \<ge> start\<close> for every header) fails at the header
  \<^verbatim>\<open>bytes=5-2\<close> for an object of 10 bytes: the parser returns start 5 and end 2.
\<close>

theorem parseRangeHeader_inverted_counterexample:
  "parseRangeHeader (Str ''bytes=5-2'') (Number (Num 10)) = [Number (Num 5), Number (Num 2)]
   \<and> \<not> ((5::int) \<le> 2)"
  by code_simp

section \<open>The polyfill path of archive.js\<close>

lemma dec_2: "dec 2 = ''2''" by code_simp

lemma dec_3: "dec 3 = ''3''" by code_simp

lemma dec_5: "dec 5 = ''5''" by code_simp

text \<open>
  For a GET request whose Range header is \<^verbatim>\<open>bytes=A-B\<close> with
  \<open>A \<le> B < totalLength\<close> (the probe declaring no length, or the length
  \<open>totalLength\<close>), and whose fetched body has exactly \<open>totalLength\<close> bytes, the polyfill
  path of archive.js answers 206 with the inclusive slice \<open>[A, B]\<close> of the fetched body,
  of exactly \<open>B - A + 1\<close> bytes, and with the \<^verbatim>\<open>content-range\<close>
  \<^verbatim>\<open>bytes A-B/totalLength\<close>.
\<close>

lemma archive_polyfill_get_range:
  assumes "http_method request = ''GET''"
    and "validate_archive new_URL allowlist (get (search_params request) ''archive-url'')
           = Some fileExtension"
    and "net 0 \<lparr>fetch_url = to_string (get (search_params request) ''archive-url''),
                 fetch_method = ''HEAD'', fetch_headers = Map.empty\<rparr> = Fetched probe_response"
    and "\<not> supportsRange probe_response"
    and "probedByteLength probe_response = Null
         \<or> probedByteLength probe_response = Str (dec totalLength)"
    and "net 1 \<lparr>fetch_url = to_string (get (search_params request) ''archive-url''),
                 fetch_method = ''GET'', fetch_headers = Map.empty\<rparr> = Fetched origin"
    and "length (body origin) = totalLength"
    and "headers request ''range'' = Some (''bytes='' @ dec a @ ''-'' @ dec b)"
    and "a \<le> b" and "b < totalLength"
  shows "sent_status (snd (archive new_URL allowlist net request)) = Some 206
         \<and> sent_body (snd (archive new_URL allowlist net request))
             = Some (take (b - a + 1) (drop a (body origin)))
         \<and> length (take (b - a + 1) (drop a (body origin))) = b - a + 1
         \<and> sent_header (snd (archive new_URL allowlist net request)) ''content-range''
             = Some (''bytes '' @ dec a @ ''-'' @ dec b @ ''/'' @ dec totalLength)"
proof -
  define url where "url = get (search_params request) ''archive-url''"
  define rh where "rh = extension_headers [''access-control-allow-origin'' \<mapsto> ''*'',
                            ''accept-ranges'' \<mapsto> ''bytes''] fileExtension"
  have a: "snd (archive new_URL allowlist net request)
           = snd (polyfill net request url rh (probedByteLength probe_response))"
    using assms(1-4) by (simp add: archive_def Let_def url_def rh_def)
  have "\<exists>r. snd (polyfill net request url rh (probedByteLength probe_response)) = Returned r
             \<and> r_status r = 206
             \<and> r_body r = Some (take (b - a + 1) (drop a (body origin)))
             \<and> r_headers r ''content-range''
                 = Some (''bytes '' @ dec a @ ''-'' @ dec b @ ''/'' @ dec totalLength)
             \<and> r_headers r ''content-length'' = Some (dec (b - a + 1))"
    using assms(1,5-10) unfolding url_def [symmetric]
    by (rule polyfill_get_closed_range)
  then obtain r where r: "snd (polyfill net request url rh (probedByteLength probe_response)) = Returned r"
    "r_status r = 206" "r_body r = Some (take (b - a + 1) (drop a (body origin)))"
    "r_headers r ''content-range'' = Some (''bytes '' @ dec a @ ''-'' @ dec b @ ''/'' @ dec totalLength)"
    by blast
  have l: "length (take (b - a + 1) (drop a (body origin))) = b - a + 1"
    using assms(7,9,10) by simp
  show ?thesis
    unfolding a r(1) using r(2-4) l
    by (simp add: sent_status_def sent_body_def sent_header_def del: length_take length_drop)
qed

lemma archive_polyfill_get_range_example:
  "sent_status (snd (archive example_URL example_allowlist
      (example_net (Fetched \<lparr>status = 200, response_headers = Map.empty, body = []\<rparr>)
         (Fetched \<lparr>status = 200, response_headers = Map.empty, body = [10, 20, 30, 40, 50]\<rparr>))
      (example_request ''GET'' [''range'' \<mapsto> ''bytes=2-3'']))) = Some 206
   \<and> sent_body (snd (archive example_URL example_allowlist
      (example_net (Fetched \<lparr>status = 200, response_headers = Map.empty, body = []\<rparr>)
         (Fetched \<lparr>status = 200, response_headers = Map.empty, body = [10, 20, 30, 40, 50]\<rparr>))
      (example_request ''GET'' [''range'' \<mapsto> ''bytes=2-3'']))) = Some [30, 40]
   \<and> sent_header (snd (archive example_URL example_allowlist
      (example_net (Fetched \<lparr>status = 200, response_headers = Map.empty, body = []\<rparr>)
         (Fetched \<lparr>status = 200, response_headers = Map.empty, body = [10, 20, 30, 40, 50]\<rparr>))
      (example_request ''GET'' [''range'' \<mapsto> ''bytes=2-3''])))
      ''content-range'' = Some ''bytes 2-3/5''"
proof -
  define net where "net = example_net (Fetched \<lparr>status = 200, response_headers = Map.empty, body = []\<rparr>)
         (Fetched \<lparr>status = 200, response_headers = Map.empty, body = [10, 20, 30, 40, 50]\<rparr>)"
  define request where "request = example_request ''GET'' [''range'' \<mapsto> ''bytes=2-3'']"
  have h1: "http_method request = ''GET''" by (simp add: request_def example_request_def)
  have h2: "validate_archive example_URL example_allowlist (get (search_params request) ''archive-url'')
           = Some ''.wacz''"
    unfolding request_def by code_simp
  have h3: "net 0 \<lparr>fetch_url = to_string (get (search_params request) ''archive-url''),
                 fetch_method = ''HEAD'', fetch_headers = Map.empty\<rparr>
            = Fetched \<lparr>status = 200, response_headers = Map.empty, body = []\<rparr>"
    by (simp add: net_def example_net_def)
  have h4: "\<not> supportsRange \<lparr>status = 200, response_headers = Map.empty, body = []\<rparr>"
    by (simp add: supportsRange_def get_def truthy_def)
  have h5: "probedByteLength \<lparr>status = 200, response_headers = Map.empty, body = []\<rparr> = Null
         \<or> probedByteLength \<lparr>status = 200, response_headers = Map.empty, body = []\<rparr> = Str (dec 5)"
    by (simp add: probedByteLength_def get_def truthy_def)
  have h6: "net 1 \<lparr>fetch_url = to_string (get (search_params request) ''archive-url''),
                 fetch_method = ''GET'', fetch_headers = Map.empty\<rparr>
            = Fetched \<lparr>status = 200, response_headers = Map.empty, body = [10, 20, 30, 40, 50]\<rparr>"
    by (simp add: net_def example_net_def)
  have h7: "length (body \<lparr>status = 200, response_headers = Map.empty, body = [10, 20, 30, 40, 50 :: byte]\<rparr>) = 5"
    by simp
  have h8: "headers request ''range'' = Some (''bytes='' @ dec 2 @ ''-'' @ dec 3)"
    by (simp add: request_def example_request_def dec_2 dec_3)
  have h9: "(2::nat) \<le> 3" by simp
  have h10: "(3::nat) < 5" by simp
  from archive_polyfill_get_range [OF h1 h2 h3 h4 h5 h6 h7 h8 h9 h10]
  show ?thesis
    unfolding net_def request_def by (simp add: dec_2 dec_3 dec_5)
qed

text \<open>
  C1, for the code as it is. The claim is for every client request on the polyfill path
  whose fetched body has \<open>totalLength\<close> bytes; for a HEAD request that is a request whose
  probe declared no length, since only then is the transfer a GET. The function forces that
  GET to measure the object, but for a HEAD request it leaves \<^verbatim>\<open>data\<close> at \<^verbatim>\<open>null\<close>, so
  the length stays \<^verbatim>\<open>null\<close>: the end of the range is clamped to \<open>null - 1 = -1\<close> and
  the \<^verbatim>\<open>content-range\<close> is built from \<^verbatim>\<open>null\<close>. Evaluated for a HEAD request with the
  header \<^verbatim>\<open>bytes=0-0\<close> and an object of 4 bytes: two fetches, HEAD then GET, status 206,
  no body, and \<^verbatim>\<open>content-range: bytes 0--1/null\<close> where the claim has
  \<^verbatim>\<open>bytes 0-0/4\<close>.
\<close>

theorem archive_polyfill_head_unmeasured_length:
  "map fetch_method (fst (archive example_URL example_allowlist
      (example_net (Fetched \<lparr>status = 200, response_headers = Map.empty, body = []\<rparr>)
         (Fetched \<lparr>status = 200, response_headers = Map.empty, body = [10, 20, 30, 40]\<rparr>))
      (example_request ''HEAD'' [''range'' \<mapsto> ''bytes=0-0''])))
    = [''HEAD'', ''GET'']
   \<and> sent_status (snd (archive example_URL example_allowlist
      (example_net (Fetched \<lparr>status = 200, response_headers = Map.empty, body = []\<rparr>)
         (Fetched \<lparr>status = 200, response_headers = Map.empty, body = [10, 20, 30, 40]\<rparr>))
      (example_request ''HEAD'' [''range'' \<mapsto> ''bytes=0-0'']))) = Some 206
   \<and> sent_body (snd (archive example_URL example_allowlist
      (example_net (Fetched \<lparr>status = 200, response_headers = Map.empty, body = []\<rparr>)
         (Fetched \<lparr>status = 200, response_headers = Map.empty, body = [10, 20, 30, 40]\<rparr>))
      (example_request ''HEAD'' [''range'' \<mapsto> ''bytes=0-0'']))) = None
   \<and> sent_header (snd (archive example_URL example_allowlist
      (example_net (Fetched \<lparr>status = 200, response_headers = Map.empty, body = []\<rparr>)
         (Fetched \<lparr>status = 200, response_headers = Map.empty, body = [10, 20, 30, 40]\<rparr>))
      (example_request ''HEAD'' [''range'' \<mapsto> ''bytes=0-0''])))
      ''content-range'' = Some ''bytes 0--1/null''"
  by code_simp

text \<open>
  When the probe did declare the length, the same HEAD request gets the
  \<^verbatim>\<open>content-range\<close> of the requested range.
\<close>

lemma archive_polyfill_head_probed_length:
  "sent_body (snd (archive example_URL example_allowlist
      (example_net (Fetched \<lparr>status = 200, response_headers = [''content-length'' \<mapsto> ''4''],
                      body = []\<rparr>)
         (Fetched \<lparr>status = 200, response_headers = [''content-length'' \<mapsto> ''4''],
                      body = []\<rparr>))
      (example_request ''HEAD'' [''range'' \<mapsto> ''bytes=0-0'']))) = None
   \<and> sent_header (snd (archive example_URL example_allowlist
      (example_net (Fetched \<lparr>status = 200, response_headers = [''content-length'' \<mapsto> ''4''],
                      body = []\<rparr>)
         (Fetched \<lparr>status = 200, response_headers = [''content-length'' \<mapsto> ''4''],
                      body = []\<rparr>))
      (example_request ''HEAD'' [''range'' \<mapsto> ''bytes=0-0''])))
      ''content-range'' = Some ''bytes 0-0/4''"
  by code_simp








text \<open>
  For a HEAD request archive.js answers on its polyfill path with no body, a
  \<^verbatim>\<open>content-length\<close> of 0 and the \<^verbatim>\<open>content-range\<close> made of the parsed range and of the
  length that the probe declared.
\<close>

lemma archive_polyfill_head:
  assumes "http_method request = ''HEAD''"
    and "validate_archive new_URL allowlist (get (search_params request) ''archive-url'')
           = Some fileExtension"
    and "net 0 \<lparr>fetch_url = to_string (get (search_params request) ''archive-url''),
                 fetch_method = ''HEAD'', fetch_headers = Map.empty\<rparr> = Fetched probe_response"
    and "\<not> supportsRange probe_response"
    and "net 1 \<lparr>fetch_url = to_string (get (search_params request) ''archive-url''),
                 fetch_method = (if truthy (probedByteLength probe_response)
                                 then ''HEAD'' else ''GET''),
                 fetch_headers = Map.empty\<rparr> = Fetched origin"
  shows "sent_status (snd (archive new_URL allowlist net request)) = Some 206
         \<and> sent_body (snd (archive new_URL allowlist net request)) = None
         \<and> sent_header (snd (archive new_URL allowlist net request)) ''content-length''
             = Some ''0''
         \<and> sent_header (snd (archive new_URL allowlist net request)) ''content-range''
             = Some (''bytes ''
                 @ to_string (js_index (parseRangeHeader (get (headers request) ''range'')
                                          (probedByteLength probe_response)) 0)
                 @ ''-''
                 @ to_string (js_index (parseRangeHeader (get (headers request) ''range'')
                                          (probedByteLength probe_response)) 1)
                 @ ''/'' @ to_string (probedByteLength probe_response))"
  using assms
  by (cases "truthy (probedByteLength probe_response)")
     (simp_all add: archive_def polyfill_def Let_def new_Response_def sent_status_def
       sent_body_def sent_header_def)

text \<open>
  C8, for the code as it is. archive.js does what the claim says (lemma
  \<open>archive_polyfill_head\<close>), through the guard \<^verbatim>\<open>data ? data.byteLength : 0\<close>.
  archive-wacz.js, which the claim also covers, reads \<^verbatim>\<open>data.byteLength\<close> without the
  guard: for a HEAD request on its polyfill path \<^verbatim>\<open>data\<close> is \<^verbatim>\<open>null\<close> and the function
  throws after its second fetch, so that no response is made. Evaluated here for a HEAD
  request, the origin declaring a length of 4 bytes and no range support.
\<close>

theorem archive_wacz_head_polyfill_throws:
  "map fetch_method (fst (archive_wacz example_URL example_allowlist
      (example_net (Fetched \<lparr>status = 200, response_headers = [''content-length'' \<mapsto> ''4''],
                      body = []\<rparr>)
         (Fetched \<lparr>status = 200, response_headers = [''content-length'' \<mapsto> ''4''],
                      body = []\<rparr>))
      (example_request ''HEAD'' Map.empty))) = [''HEAD'', ''HEAD'']
   \<and> threw (snd (archive_wacz example_URL example_allowlist
      (example_net (Fetched \<lparr>status = 200, response_headers = [''content-length'' \<mapsto> ''4''],
                      body = []\<rparr>)
         (Fetched \<lparr>status = 200, response_headers = [''content-length'' \<mapsto> ''4''],
                      body = []\<rparr>))
      (example_request ''HEAD'' Map.empty)))"
  by code_simp

section \<open>The capability probe\<close>

lemma truthy_get:
  "truthy (get m name) \<longleftrightarrow> (\<exists>v. m name = Some v \<and> v \<noteq> [])"
  by (cases "m name") (simp_all add: get_def truthy_def)

text \<open>
  C7. For a validated request whose probe gets a response, \<open>supportsRange\<close> holds if
  and only if that response has a non-empty \<^verbatim>\<open>accept-ranges\<close> header and a non-empty
  \<^verbatim>\<open>content-length\<close> header; the function then answers by the pass-through transfer,
  and by the polyfill transfer if either header is missing or empty.
\<close>

theorem supportsRange_iff_both_headers:
  assumes "http_method request = ''GET'' \<or> http_method request = ''HEAD''"
    and "validate_archive new_URL allowlist (get (search_params request) ''archive-url'')
           = Some fileExtension"
    and "net 0 \<lparr>fetch_url = to_string (get (search_params request) ''archive-url''),
                 fetch_method = ''HEAD'', fetch_headers = Map.empty\<rparr> = Fetched response"
  shows "(supportsRange response \<longleftrightarrow>
            (\<exists>a c. response_headers response ''accept-ranges'' = Some a \<and> a \<noteq> []
                   \<and> response_headers response ''content-length'' = Some c \<and> c \<noteq> []))
         \<and> snd (archive new_URL allowlist net request)
            = (if \<exists>a c. response_headers response ''accept-ranges'' = Some a \<and> a \<noteq> []
                        \<and> response_headers response ''content-length'' = Some c \<and> c \<noteq> []
               then snd (passthrough net request (get (search_params request) ''archive-url'')
                      (extension_headers [''access-control-allow-origin'' \<mapsto> ''*'',
                                          ''accept-ranges'' \<mapsto> ''bytes''] fileExtension))
               else snd (polyfill net request (get (search_params request) ''archive-url'')
                      (extension_headers [''access-control-allow-origin'' \<mapsto> ''*'',
                                          ''accept-ranges'' \<mapsto> ''bytes''] fileExtension)
                      (probedByteLength response)))"
proof -
  have s: "supportsRange response \<longleftrightarrow>
            (\<exists>a c. response_headers response ''accept-ranges'' = Some a \<and> a \<noteq> []
                   \<and> response_headers response ''content-length'' = Some c \<and> c \<noteq> [])"
    by (auto simp: supportsRange_def truthy_get)
  have "snd (archive new_URL allowlist net request)
        = (if supportsRange response
           then snd (passthrough net request (get (search_params request) ''archive-url'')
                      (extension_headers [''access-control-allow-origin'' \<mapsto> ''*'',
                                          ''accept-ranges'' \<mapsto> ''bytes''] fileExtension))
           else snd (polyfill net request (get (search_params request) ''archive-url'')
                      (extension_headers [''access-control-allow-origin'' \<mapsto> ''*'',
                                          ''accept-ranges'' \<mapsto> ''bytes''] fileExtension)
                      (probedByteLength response)))"
    using assms by (auto simp: archive_def Let_def)
  then show ?thesis using s by simp
qed

theorem supportsRange_iff_both_headers_witness:
  "\<not> supportsRange \<lparr>status = 200, response_headers = [''accept-ranges'' \<mapsto> ''bytes''], body = []\<rparr>
   \<and> snd (archive example_URL example_allowlist
        (example_net
           (Fetched \<lparr>status = 200, response_headers = [''accept-ranges'' \<mapsto> ''bytes''], body = []\<rparr>)
           (Fetched \<lparr>status = 200, response_headers = Map.empty, body = [10, 20, 30, 40]\<rparr>))
        (example_request ''GET'' Map.empty))
      = snd (polyfill
        (example_net
           (Fetched \<lparr>status = 200, response_headers = [''accept-ranges'' \<mapsto> ''bytes''], body = []\<rparr>)
           (Fetched \<lparr>status = 200, response_headers = Map.empty, body = [10, 20, 30, 40]\<rparr>))
        (example_request ''GET'' Map.empty)
        (get (search_params (example_request ''GET'' Map.empty)) ''archive-url'')
        (extension_headers [''access-control-allow-origin'' \<mapsto> ''*'',
                            ''accept-ranges'' \<mapsto> ''bytes''] ''.wacz'')
        (probedByteLength
           \<lparr>status = 200, response_headers = [''accept-ranges'' \<mapsto> ''bytes''], body = []\<rparr>))"
proof -
  define net where "net = example_net
           (Fetched \<lparr>status = 200, response_headers = [''accept-ranges'' \<mapsto> ''bytes''], body = []\<rparr>)
           (Fetched \<lparr>status = 200, response_headers = Map.empty, body = [10, 20, 30, 40]\<rparr>)"
  have h1: "http_method (example_request ''GET'' Map.empty) = ''GET''
            \<or> http_method (example_request ''GET'' Map.empty) = ''HEAD''"
    by (simp add: example_request_def)
  have h2: "validate_archive example_URL example_allowlist
              (get (search_params (example_request ''GET'' Map.empty)) ''archive-url'')
            = Some ''.wacz''"
    by code_simp
  have h3: "net 0
           \<lparr>fetch_url = to_string (get (search_params (example_request ''GET'' Map.empty)) ''archive-url''),
            fetch_method = ''HEAD'', fetch_headers = Map.empty\<rparr>
          = Fetched \<lparr>status = 200, response_headers = [''accept-ranges'' \<mapsto> ''bytes''], body = []\<rparr>"
    by (simp add: net_def example_net_def)
  from supportsRange_iff_both_headers
         [where net = net and request = "example_request ''GET'' Map.empty", OF h1 h2 h3]
  show ?thesis unfolding net_def by simp
qed

text \<open>
  When the probe fails at the network level, the function answers 404 with no body and
  sends no second fetch.
\<close>

lemma archive_probe_network_failure:
  assumes "http_method request = ''GET'' \<or> http_method request = ''HEAD''"
    and "validate_archive new_URL allowlist (get (search_params request) ''archive-url'')
           = Some fileExtension"
    and "net 0 \<lparr>fetch_url = to_string (get (search_params request) ''archive-url''),
                 fetch_method = ''HEAD'', fetch_headers = Map.empty\<rparr> = NetworkError"
  shows "archive new_URL allowlist net request
         = ([\<lparr>fetch_url = to_string (get (search_params request) ''archive-url''),
              fetch_method = ''HEAD'', fetch_headers = Map.empty\<rparr>],
            Returned \<lparr>r_status = 404, r_headers = Map.empty, r_body = None\<rparr>)"
  using assms by (auto simp: archive_def Let_def new_Response_def)

text \<open>
  C4, for the code as it is. \<^verbatim>\<open>fetch\<close> rejects only on a network failure; a response
  with a non-success status is a fulfilled promise, and the function never reads the status
  of the probe's response. For a probe answered 404 the function goes on to the transfer
  step (here the polyfill path: a second fetch, with GET) and answers 206 with the body of
  the origin's error response.
\<close>

theorem archive_probe_status_ignored:
  "map fetch_method (fst (archive example_URL example_allowlist
      (example_net (Fetched \<lparr>status = 404, response_headers = Map.empty, body = []\<rparr>)
         (Fetched \<lparr>status = 404, response_headers = Map.empty, body = [78, 111]\<rparr>))
      (example_request ''GET'' Map.empty)))
    = [''HEAD'', ''GET'']
   \<and> sent_status (snd (archive example_URL example_allowlist
      (example_net (Fetched \<lparr>status = 404, response_headers = Map.empty, body = []\<rparr>)
         (Fetched \<lparr>status = 404, response_headers = Map.empty, body = [78, 111]\<rparr>))
      (example_request ''GET'' Map.empty))) = Some 206
   \<and> sent_body (snd (archive example_URL example_allowlist
      (example_net (Fetched \<lparr>status = 404, response_headers = Map.empty, body = []\<rparr>)
         (Fetched \<lparr>status = 404, response_headers = Map.empty, body = [78, 111]\<rparr>))
      (example_request ''GET'' Map.empty))) = Some [78, 111]"
  by code_simp

section \<open>Failure of the transfer fetch\<close>

text \<open>
  In archive.js the transfer fetch is outside any \<^verbatim>\<open>try\<close>: when it fails, the function
  throws, on either path, after exactly two fetches. archive-warc-gz.js has its fetch inside
  a \<^verbatim>\<open>try\<close> and answers 404 with no body.
\<close>

lemma archive_transfer_network_failure:
  assumes "http_method request = ''GET'' \<or> http_method request = ''HEAD''"
    and "validate_archive new_URL allowlist (get (search_params request) ''archive-url'')
           = Some fileExtension"
    and "net 0 \<lparr>fetch_url = to_string (get (search_params request) ''archive-url''),
                 fetch_method = ''HEAD'', fetch_headers = Map.empty\<rparr> = Fetched probe_response"
    and "\<forall>sent. net 1 sent = NetworkError"
  shows "snd (archive new_URL allowlist net request) = Threw
         \<and> length (fst (archive new_URL allowlist net request)) = 2"
  using assms by (auto simp: archive_def Let_def passthrough_def polyfill_def)

lemma archive_warc_gz_network_failure:
  assumes "http_method request = ''GET'' \<or> http_method request = ''HEAD''"
    and "validate_warc_gz new_URL allowlist (get (search_params request) ''archive-url'')"
    and "net 0 \<lparr>fetch_url = to_string (get (search_params request) ''archive-url''),
                 fetch_method = ''GET'', fetch_headers = Map.empty\<rparr> = NetworkError"
  shows "archive_warc_gz new_URL allowlist net request
         = ([\<lparr>fetch_url = to_string (get (search_params request) ''archive-url''),
              fetch_method = ''GET'', fetch_headers = Map.empty\<rparr>],
            Returned \<lparr>r_status = 404, r_headers = Map.empty, r_body = None\<rparr>)"
  using assms by (auto simp: archive_warc_gz_def Let_def new_Response_def)

text \<open>
  C5, for the code as it is. The claim is that a failed transfer fetch gives a response
  with an empty body and an error status, on both paths. Evaluated on the pass-through path
  (the probe declares range support and a length) and on the polyfill path (it declares
  neither) of archive.js, with a second fetch that fails: after the two fetches, the second
  not repeated, the function throws and returns no response.
\<close>

theorem archive_transfer_failure_uncaught:
  "map fetch_method (fst (archive example_URL example_allowlist
      (example_net (Fetched \<lparr>status = 200,
                      response_headers = [''accept-ranges'' \<mapsto> ''bytes'', ''content-length'' \<mapsto> ''4''],
                      body = []\<rparr>) NetworkError)
      (example_request ''GET'' Map.empty))) = [''HEAD'', ''GET'']
   \<and> threw (snd (archive example_URL example_allowlist
      (example_net (Fetched \<lparr>status = 200,
                      response_headers = [''accept-ranges'' \<mapsto> ''bytes'', ''content-length'' \<mapsto> ''4''],
                      body = []\<rparr>) NetworkError)
      (example_request ''GET'' Map.empty)))
   \<and> map fetch_method (fst (archive example_URL example_allowlist
      (example_net (Fetched \<lparr>status = 200, response_headers = Map.empty, body = []\<rparr>)
         NetworkError)
      (example_request ''GET'' Map.empty))) = [''HEAD'', ''GET'']
   \<and> threw (snd (archive example_URL example_allowlist
      (example_net (Fetched \<lparr>status = 200, response_headers = Map.empty, body = []\<rparr>)
         NetworkError)
      (example_request ''GET'' Map.empty)))"
  by code_simp

section \<open>The CORS header\<close>

text \<open>
  The responses that archive.js makes after a successful probe carry
  \<^verbatim>\<open>access-control-allow-origin: *\<close>.
\<close>

lemma success_responses_with_cors_header:
  assumes "http_method request = ''GET'' \<or> http_method request = ''HEAD''"
    and "validate_archive new_URL allowlist (get (search_params request) ''archive-url'')
           = Some fileExtension"
    and "net 0 \<lparr>fetch_url = to_string (get (search_params request) ''archive-url''),
                 fetch_method = ''HEAD'', fetch_headers = Map.empty\<rparr> = Fetched probe_response"
    and "snd (archive new_URL allowlist net request) = Returned r"
  shows "r_headers r ''access-control-allow-origin'' = Some ''*''"
  using assms
  by (auto simp: archive_def Let_def passthrough_def polyfill_def new_Response_def
      extension_headers_def split: fetch_result.splits if_splits)

text \<open>
  C6, for the code as it is. The responses for 405, 400 and 404 of archive.js, and the
  200 response of archive-warc-gz.js, are built with \<^verbatim>\<open>{status, returnHeaders}\<close>: the
  headers are under a key that the constructor ignores, and the response has none.
  Evaluated for a POST request (405), a request without \<^verbatim>\<open>archive-url\<close> (400), a probe
  that fails (404) and a successful request to archive-warc-gz.js (200).
\<close>

theorem error_responses_without_cors_header:
  "sent_status (snd (archive example_URL example_allowlist (example_net NetworkError NetworkError)
      (example_request ''POST'' Map.empty))) = Some 405
   \<and> sent_header (snd (archive example_URL example_allowlist (example_net NetworkError NetworkError)
      (example_request ''POST'' Map.empty))) ''access-control-allow-origin'' = None
   \<and> sent_status (snd (archive example_URL example_allowlist (example_net NetworkError NetworkError)
      \<lparr>http_method = ''GET'', search_params = Map.empty, headers = Map.empty\<rparr>)) = Some 400
   \<and> sent_header (snd (archive example_URL example_allowlist (example_net NetworkError NetworkError)
      \<lparr>http_method = ''GET'', search_params = Map.empty, headers = Map.empty\<rparr>))
      ''access-control-allow-origin'' = None
   \<and> sent_status (snd (archive example_URL example_allowlist (example_net NetworkError NetworkError)
      (example_request ''GET'' Map.empty))) = Some 404
   \<and> sent_header (snd (archive example_URL example_allowlist (example_net NetworkError NetworkError)
      (example_request ''GET'' Map.empty))) ''access-control-allow-origin'' = None
   \<and> sent_status (snd (archive_warc_gz example_URL [''wacz.example'']
      (example_net (Fetched \<lparr>status = 200, response_headers = Map.empty, body = [10, 20]\<rparr>)
         NetworkError)
      \<lparr>http_method = ''GET'',
       search_params = [''archive-url'' \<mapsto> ''https://wacz.example/x.warc.gz''],
       headers = Map.empty\<rparr>)) = Some 200
   \<and> sent_header (snd (archive_warc_gz example_URL [''wacz.example'']
      (example_net (Fetched \<lparr>status = 200, response_headers = Map.empty, body = [10, 20]\<rparr>)
         NetworkError)
      \<lparr>http_method = ''GET'',
       search_params = [''archive-url'' \<mapsto> ''https://wacz.example/x.warc.gz''],
       headers = Map.empty\<rparr>)) ''access-control-allow-origin'' = None"
  by code_simp

section \<open>The embed template\<close>

lemma index_from_found_iff:
  "index_from pat s k \<noteq> None \<longleftrightarrow> (\<exists>u v. s = u @ pat @ v)"
proof (induction s arbitrary: k)
  case Nil
  then show ?case by simp
next
  case (Cons c cs)
  show ?case
  proof (cases "take (length pat) (c # cs) = pat")
    case True
    then have "c # cs = [] @ pat @ drop (length pat) (c # cs)"
      by (metis append_Nil append_take_drop_id)
    then have "\<exists>u v. c # cs = u @ pat @ v" by blast
    with True show ?thesis by simp
  next
    case False
    have "(\<exists>u v. c # cs = u @ pat @ v) \<longleftrightarrow> (\<exists>u v. cs = u @ pat @ v)"
    proof
      assume "\<exists>u v. c # cs = u @ pat @ v"
      then obtain u v where uv: "c # cs = u @ pat @ v" by blast
      show "\<exists>u v. cs = u @ pat @ v"
      proof (cases u)
        case Nil
        with uv have "take (length pat) (c # cs) = pat" by simp
        with False show ?thesis by simp
      next
        case (Cons x xs)
        with uv have "cs = xs @ pat @ v" by simp
        then show ?thesis by blast
      qed
    next
      assume "\<exists>u v. cs = u @ pat @ v"
      then obtain u v where "cs = u @ pat @ v" by blast
      then have "c # cs = (c # u) @ pat @ v" by simp
      then show "\<exists>u v. c # cs = u @ pat @ v" by blast
    qed
    with False Cons.IH [of "Suc k"] show ?thesis by simp
  qed
qed

lemma includes_str_iff: "includes_str s pat \<longleftrightarrow> (\<exists>u v. s = u @ pat @ v)"
  unfolding includes_str_def by (rule index_from_found_iff)

lemma get_substitution_no_dollar:
  "CHR ''$'' \<notin> set replacement \<Longrightarrow> get_substitution m p f replacement = replacement"
  by (induction m p f replacement rule: get_substitution.induct) auto

lemma replaceAll_from_Nil: "pat \<noteq> [] \<Longrightarrow> replaceAll_from w pat r k [] = []"
  by (subst replaceAll_from.simps) auto

lemma replaceAll_from_Cons:
  "pat \<noteq> [] \<Longrightarrow> replaceAll_from w pat r k (c # cs) =
     (if take (length pat) (c # cs) = pat
      then get_substitution pat (take k w) (drop (k + length pat) w) r
           @ replaceAll_from w pat r (k + length pat) (drop (length pat) (c # cs))
      else c # replaceAll_from w pat r (Suc k) cs)"
proof -
  assume ne: "pat \<noteq> []"
  have l: "length pat \<le> length (c # cs)" if "take (length pat) (c # cs) = pat"
  proof -
    from that have "length (take (length pat) (c # cs)) = length pat" by simp
    then show ?thesis by simp
  qed
  show ?thesis
    by (subst replaceAll_from.simps) (use ne l in auto)
qed

lemma replaceAll_from_skip:
  "p \<notin> set pre \<Longrightarrow>
   replaceAll_from w (p # ps) r k (pre @ rest) = pre @ replaceAll_from w (p # ps) r (k + length pre) rest"
proof (induction pre arbitrary: k)
  case Nil
  show ?case by simp
next
  case (Cons x xs)
  then show ?case by (auto simp: replaceAll_from_Cons)
qed

lemma replaceAll_from_absent:
  "p \<notin> set s \<Longrightarrow> replaceAll_from w (p # ps) r k s = s"
  using replaceAll_from_skip [of p s w ps r k "[]"] by (simp add: replaceAll_from_Nil)

lemma replaceAll_keeps_format:
  assumes "CHR ''{'' \<notin> set pre" and "CHR ''{'' \<notin> set post"
  shows "replaceAll (pre @ ''{{format}}'' @ post) ''{{original-url}}'' r = pre @ ''{{format}}'' @ post"
    and "replaceAll (pre @ ''{{format}}'' @ post) ''{{archive-url}}'' r = pre @ ''{{format}}'' @ post"
  using assms
  by (simp_all add: replaceAll_def replaceAll_from_skip replaceAll_from_Cons replaceAll_from_absent)

lemma replaceAll_format:
  assumes "CHR ''{'' \<notin> set pre" and "CHR ''{'' \<notin> set post" and "CHR ''$'' \<notin> set r"
  shows "replaceAll (pre @ ''{{format}}'' @ post) ''{{format}}'' r = pre @ r @ post"
  using assms
  by (simp add: replaceAll_def replaceAll_from_skip replaceAll_from_Cons replaceAll_from_absent
      get_substitution_no_dollar)

text \<open>
  C10. For every request whose \<^verbatim>\<open>archive-url\<close> and \<^verbatim>\<open>original-url\<close> both parse,
  the page is sent with \<^verbatim>\<open>{{format}}\<close> replaced by \<^verbatim>\<open>wacz\<close> exactly when the text of
  \<^verbatim>\<open>archive-url\<close> contains \<^verbatim>\<open>wacz\<close> somewhere, and by \<^verbatim>\<open>warc.gz\<close> otherwise. On a
  page with one \<^verbatim>\<open>{{format}}\<close> and no other brace the result is the page with the label
  in the place of the placeholder.
\<close>

theorem embed_format_label:
  assumes "http_method request = ''GET'' \<or> http_method request = ''HEAD''"
    and "search_params request ''archive-url'' = Some archiveUrl"
    and "search_params request ''original-url'' = Some originalUrl"
    and "new_URL archiveUrl \<noteq> None" and "new_URL originalUrl \<noteq> None"
    and "200 \<le> page_status next_response" and "page_status next_response \<le> 599"
    and "\<not> null_body_status (page_status next_response)"
  shows "sent_body (embed new_URL next_response request)
           = Some (replaceAll
                     (replaceAll
                        (replaceAll (page_text next_response) ''{{original-url}}'' originalUrl)
                        ''{{archive-url}}'' archiveUrl)
                     ''{{format}}''
                     (if \<exists>u v. archiveUrl = u @ ''wacz'' @ v then ''wacz'' else ''warc.gz''))
         \<and> (page_text next_response = pre @ ''{{format}}'' @ post
              \<and> CHR ''{'' \<notin> set pre \<and> CHR ''{'' \<notin> set post
            \<longrightarrow> sent_body (embed new_URL next_response request)
                  = Some (pre @ (if \<exists>u v. archiveUrl = u @ ''wacz'' @ v
                                 then ''wacz'' else ''warc.gz'') @ post))"
proof -
  define label where
    "label = (if \<exists>u v. archiveUrl = u @ ''wacz'' @ v then ''wacz'' else ''warc.gz'')"
  have lab: "(if includes_str archiveUrl ''wacz'' then ''wacz'' else ''warc.gz'') = label"
    unfolding label_def includes_str_iff ..
  have nd: "CHR ''$'' \<notin> set label"
    by (simp add: label_def)
  have g: "get (search_params request) ''archive-url'' = Str archiveUrl"
    "get (search_params request) ''original-url'' = Str originalUrl"
    using assms(2,3) by (simp_all add: get_def)
  have b: "sent_body (embed new_URL next_response request)
           = Some (replaceAll
                     (replaceAll
                        (replaceAll (page_text next_response) ''{{original-url}}'' originalUrl)
                        ''{{archive-url}}'' archiveUrl)
                     ''{{format}}'' label)"
    using assms(1,4-8)
    by (auto simp: embed_def Let_def g to_string_def lab new_Response_def sent_body_def)
  have "replaceAll
          (replaceAll
             (replaceAll (pre @ ''{{format}}'' @ post) ''{{original-url}}'' originalUrl)
             ''{{archive-url}}'' archiveUrl)
          ''{{format}}'' label = pre @ label @ post"
    if "CHR ''{'' \<notin> set pre" and "CHR ''{'' \<notin> set post"
    unfolding replaceAll_keeps_format [OF that] replaceAll_format [OF that nd] ..
  with b show ?thesis unfolding label_def [symmetric] by auto
qed

text \<open>
  An archive \<^verbatim>\<open>https://wacz.example/x.warc.gz\<close> is labelled \<^verbatim>\<open>wacz\<close>.
\<close>

theorem embed_format_label_witness:
  "sent_body (embed example_URL
      \<lparr>page_status = 200, page_headers = Map.empty, page_text = ''<p>{{format}}</p>''\<rparr>
      \<lparr>http_method = ''GET'',
       search_params = [''archive-url'' \<mapsto> ''https://wacz.example/x.warc.gz'',
                        ''original-url'' \<mapsto> ''https://a.example/x.wacz''],
       headers = Map.empty\<rparr>) = Some ''<p>wacz</p>''"
proof -
  define request where "request =
      \<lparr>http_method = ''GET'',
       search_params = [''archive-url'' \<mapsto> ''https://wacz.example/x.warc.gz'',
                        ''original-url'' \<mapsto> ''https://a.example/x.wacz''],
       headers = Map.empty\<rparr>"
  define next_response where "next_response =
      \<lparr>page_status = 200, page_headers = Map.empty, page_text = ''<p>{{format}}</p>''\<rparr>"
  have h1: "http_method request = ''GET'' \<or> http_method request = ''HEAD''"
    by (simp add: request_def)
  have h2: "search_params request ''archive-url'' = Some ''https://wacz.example/x.warc.gz''"
    by (simp add: request_def)
  have h3: "search_params request ''original-url'' = Some ''https://a.example/x.wacz''"
    by (simp add: request_def)
  have h4: "example_URL ''https://wacz.example/x.warc.gz'' \<noteq> None"
    by (simp add: example_URL_def)
  have h5: "example_URL ''https://a.example/x.wacz'' \<noteq> None"
    by (simp add: example_URL_def)
  have h6: "200 \<le> page_status next_response" and h7: "page_status next_response \<le> 599"
    and h8: "\<not> null_body_status (page_status next_response)"
    by (simp_all add: next_response_def null_body_status_def)
  have "includes_str ''https://wacz.example/x.warc.gz'' ''wacz''"
    by code_simp
  then have w: "\<exists>u v. ''https://wacz.example/x.warc.gz'' = u @ ''wacz'' @ v"
    unfolding includes_str_iff .
  have shape: "page_text next_response = ''<p>'' @ ''{{format}}'' @ ''</p>''
               \<and> CHR ''{'' \<notin> set ''<p>'' \<and> CHR ''{'' \<notin> set ''</p>''"
    by (simp add: next_response_def)
  from embed_format_label [OF h1 h2 h3 h4 h5 h6 h7 h8, where pre = "''<p>''" and post = "''</p>''"]
    shape
  have "sent_body (embed example_URL next_response request)
        = Some (''<p>'' @ (if \<exists>u v. ''https://wacz.example/x.warc.gz'' = u @ ''wacz'' @ v
                           then ''wacz'' else ''warc.gz'') @ ''</p>'')"
    by blast
  also have "\<dots> = Some ''<p>wacz</p>''"
    using w by simp
  finally show ?thesis unfolding request_def next_response_def .
qed

end
